theory Spec2Isabelle
  imports Complex_Main "HOL-Library.Log_Nat"
begin

section \<open>The map dashboard: module state\<close>

text \<open>
  The dashboard script keeps its state in free-standing module variables
  (\<^verbatim>\<open>map\<close>, \<^verbatim>\<open>drawnLayers\<close>, \<^verbatim>\<open>selectedPoints\<close>, \<^verbatim>\<open>heatLayer\<close>,
  \<^verbatim>\<open>activeLayers\<close>, \<^verbatim>\<open>currentDate\<close>), in \<^verbatim>\<open>window.__analysisResults\<close> and in a
  handful of DOM elements it looks up by id. The embedding gathers them in one record
  that every operation takes and returns. A variable that is \<^verbatim>\<open>undefined\<close> or
  \<^verbatim>\<open>null\<close>, and a DOM element that \<^verbatim>\<open>getElementById\<close> does not find, is \<open>None\<close>.
  A JavaScript number that the script reads is a finite double and is modelled by the
  real it denotes; what the script computes from such numbers is rounded as the
  language rounds it (section Numbers).
\<close>

datatype layerKey = Temperature | NightLights | Vegetation

record layerConfig =
  name :: string
  tileMatrixSet :: string
  maxZoom :: nat
  attribution :: string
  opacity :: real

text \<open>
  A Leaflet tile layer: the URL template and options it was constructed with, and
  whether it currently sits on the map (what \<^verbatim>\<open>map.hasLayer\<close> answers;
  \<^verbatim>\<open>addTo\<close> sets it and \<^verbatim>\<open>map.removeLayer\<close> clears it).
\<close>

record tileLayer =
  tl_url :: string
  tl_maxZoom :: nat
  tl_attribution :: string
  tl_opacity :: real
  tl_onMap :: bool

text \<open>A placed structure: a draggable Leaflet marker carrying \<^verbatim>\<open>structureType\<close>.\<close>

record marker =
  m_lat :: real
  m_lng :: real
  structureType :: string

text \<open>
  An entry of \<^verbatim>\<open>selectedPoints\<close>. Its \<^verbatim>\<open>marker\<close> field is never read back and
  is left out.
\<close>

record point =
  p_lat :: real
  p_lon :: real
  p_type :: string

record power_summary =
  mean_temp :: "real option"
  mean_precip :: "real option"
  n_days :: "nat option"

record result =
  r_lat :: real
  r_lon :: real
  r_score :: real
  r_ndvi :: real
  r_population :: real
  r_power_summary :: "power_summary option"

text \<open>A circle marker of the analysis overlay, with the two numbers of its popup.\<close>

record circle =
  c_lat :: real
  c_lon :: real
  c_fillColor :: string
  c_popupTemp :: real
  c_popupScore :: real

record heatGroup =
  h_circles :: "circle list"
  h_onMap :: bool

text \<open>
  One \<^verbatim>\<open>div.rec\<close> of the results list, by the values its template interpolates;
  \<open>row_detailIndex\<close> is the argument of the row's \<^verbatim>\<open>showDetailedAnalysis\<close> button.
\<close>

record row =
  row_title :: string
  row_number :: nat
  row_borderColor :: string
  row_score :: real
  row_lat :: real
  row_lon :: real
  row_temp :: "real option"
  row_precip :: "real option"
  row_detailIndex :: nat

datatype node = Heading | Rec row

record detail =
  d_title :: string
  d_scoreColor :: string
  d_score :: real
  d_lat :: real
  d_lon :: real
  d_meanTemp :: "real option"
  d_meanPrecip :: "real option"
  d_days :: "nat option"
  d_ndvi :: real
  d_population :: real
  d_structureType :: string
  d_recommendation :: string

record payloadPoint =
  pp_lat :: real
  pp_lon :: real
  pp_type :: string
  pp_ndvi :: real
  pp_population :: real
  pp_road_km :: real
  pp_water_km :: real

record payload =
  points :: "payloadPoint list"
  pl_start :: string
  pl_end :: string

datatype logEntry = Log string | Warn string | Err string

record session =
  mapCreated :: bool
  drawnLayers :: "(nat \<times> marker) list option"
  selectedPoints :: "point list"
  heatLayer :: "heatGroup option"
  activeLayers :: "layerKey \<Rightarrow> tileLayer option"
  currentDate :: "string option"
  analysisResults :: "result list option"
  el_recommendations :: "node list option"
  el_loading :: "bool option"
  el_layer_heatmap :: "bool option"
  el_start_date :: "string option"
  el_end_date :: "string option"
  el_rec_modal :: "string option"
  el_rec_body :: "detail option option"
  alerts :: "string list"
  console :: "logEntry list"
  requests :: "payload list"

text \<open>
  \<open>mapCreated\<close> is whether \<^verbatim>\<open>map\<close> has been assigned; \<open>drawnLayers\<close> lists the
  layer group's markers under their Leaflet ids, in insertion order;
  \<open>el_loading\<close> is whether the loading indicator is displayed, \<open>el_layer_heatmap\<close>
  the heatmap checkbox's \<^verbatim>\<open>checked\<close>, \<open>el_rec_modal\<close> the modal's
  \<^verbatim>\<open>style.display\<close>. \<open>alerts\<close>, \<open>console\<close> and \<open>requests\<close> record the
  calls of \<^verbatim>\<open>alert\<close>, \<^verbatim>\<open>console.*\<close> and \<^verbatim>\<open>fetch\<close>, oldest first; a console
  message is recorded by its fixed text.
\<close>

text \<open>
  The state right after the script has loaded, before \<^verbatim>\<open>initMap\<close> runs: the module
  variables hold their initial values and no result array is stored; \<open>page\<close> gives
  the DOM elements.
\<close>

definition moduleLoaded :: "session \<Rightarrow> session" where
  "moduleLoaded page = page\<lparr>
     mapCreated := False, drawnLayers := None, selectedPoints := [], heatLayer := None,
     activeLayers := (\<lambda>k. None), currentDate := None, analysisResults := None\<rparr>"

text \<open>
  A statement that throws leaves the state as it stood at the throw; \<open>Threw\<close> carries
  the error's message and that state up to the enclosing \<^verbatim>\<open>catch\<close>.
\<close>

datatype outcome = Done session | Threw string session

fun andThen :: "outcome \<Rightarrow> (session \<Rightarrow> outcome) \<Rightarrow> outcome" where
  "andThen (Done s) f = f s"
| "andThen (Threw e s) f = Threw e s"

section \<open>Imagery layers\<close>

definition baseUrl :: string where
  "baseUrl = ''https://gibs.earthdata.nasa.gov/wmts/epsg4326/best/''"

fun GIBS_layers :: "layerKey \<Rightarrow> layerConfig" where
  "GIBS_layers Temperature = \<lparr>name = ''MODIS_Terra_Land_Surface_Temp_Day'',
     tileMatrixSet = ''EPSG4326_2km'', maxZoom = 7,
     attribution = ''NASA GIBS MODIS LST'', opacity = 0.65\<rparr>"
| "GIBS_layers NightLights = \<lparr>name = ''VIIRS_SNPP_DayNightBand_ENCC'',
     tileMatrixSet = ''EPSG4326_500m'', maxZoom = 8,
     attribution = ''NASA GIBS VIIRS Night Lights'', opacity = 0.8\<rparr>"
| "GIBS_layers Vegetation = \<lparr>name = ''MODIS_Terra_NDVI_8Day'',
     tileMatrixSet = ''EPSG4326_1km'', maxZoom = 8,
     attribution = ''NASA GIBS MODIS NDVI'', opacity = 0.7\<rparr>"

definition createGIBSTileUrl :: "layerConfig \<Rightarrow> string \<Rightarrow> string" where
  "createGIBSTileUrl layerConfig date =
     baseUrl @ name layerConfig @ ''/default/'' @ date @ ''/'' @ tileMatrixSet layerConfig
       @ ''/{z}/{y}/{x}.png''"

text \<open>
  \<^verbatim>\<open>L.tileLayer(url, options)\<close> belongs to the map engine. Whether it throws for a
  URL is the parameter \<open>fails\<close>; when it does not, the new layer carries the URL and the
  options and is on no map.
\<close>

definition L_tileLayer :: "(string \<Rightarrow> bool) \<Rightarrow> string \<Rightarrow> layerConfig \<Rightarrow> string + tileLayer" where
  "L_tileLayer fails u cfg =
     (if fails u then Inl ''tileLayer''
      else Inr \<lparr>tl_url = u, tl_maxZoom = maxZoom cfg, tl_attribution = attribution cfg,
                tl_opacity = opacity cfg, tl_onMap = False\<rparr>)"

text \<open>
  \<^verbatim>\<open>initializeGIBSLayers\<close>: the three layers are built in turn inside one
  \<^verbatim>\<open>try\<close>; only the temperature layer is added to the map. A \<^verbatim>\<open>currentDate\<close>
  that is still \<^verbatim>\<open>null\<close> is interpolated into the URL as the text \<^verbatim>\<open>null\<close>.
\<close>

definition initLayer :: "(string \<Rightarrow> bool) \<Rightarrow> layerKey \<Rightarrow> bool \<Rightarrow> session \<Rightarrow> outcome" where
  "initLayer fails k addToMap s =
     (let date = (case currentDate s of None \<Rightarrow> ''null'' | Some d \<Rightarrow> d) in
      case L_tileLayer fails (createGIBSTileUrl (GIBS_layers k) date) (GIBS_layers k) of
        Inl e \<Rightarrow> Threw e s
      | Inr l \<Rightarrow>
         if addToMap \<and> \<not> mapCreated s then Threw ''TypeError'' s
         else Done (s\<lparr>activeLayers := (activeLayers s)(k \<mapsto> l\<lparr>tl_onMap := addToMap\<rparr>)\<rparr>))"

definition initializeGIBSLayers :: "(string \<Rightarrow> bool) \<Rightarrow> session \<Rightarrow> session" where
  "initializeGIBSLayers fails s =
     (case andThen (andThen (andThen (initLayer fails Temperature True s)
                      (initLayer fails NightLights False))
                      (initLayer fails Vegetation False))
                   (\<lambda>s'. Done (s'\<lparr>console := console s' @ [Log ''GIBS layers initialized'']\<rparr>)) of
        Done r \<Rightarrow> r
      | Threw e r \<Rightarrow> r\<lparr>console := console r @ [Err ''Error initializing GIBS layers:'']\<rparr>)"

text \<open>
  \<^verbatim>\<open>updateGIBSLayersWithDate\<close> repeats one block per layer key, in the order
  temperature, nightLights, vegetation; \<open>rebuildLayer\<close> is that block. An unregistered
  key is skipped. Otherwise the block asks the map whether the old layer is on it,
  removes the old layer, constructs the new one and, if the old one was on the map, adds
  the new one. The whole sequence sits in a single \<^verbatim>\<open>try\<close> whose \<^verbatim>\<open>catch\<close>
  logs the error.
\<close>

definition rebuildLayer :: "(string \<Rightarrow> bool) \<Rightarrow> string \<Rightarrow> layerKey \<Rightarrow> session \<Rightarrow> outcome" where
  "rebuildLayer fails dateStr k s =
     (case activeLayers s k of
        None \<Rightarrow> Done s
      | Some old \<Rightarrow>
         if \<not> mapCreated s then Threw ''TypeError'' s
         else
           let wasActive = tl_onMap old;
               s1 = s\<lparr>activeLayers := (activeLayers s)(k \<mapsto> old\<lparr>tl_onMap := False\<rparr>)\<rparr>
           in (case L_tileLayer fails (createGIBSTileUrl (GIBS_layers k) dateStr) (GIBS_layers k) of
                 Inl e \<Rightarrow> Threw e s1
               | Inr new \<Rightarrow>
                  Done (s1\<lparr>activeLayers :=
                    (activeLayers s1)(k \<mapsto> (if wasActive then new\<lparr>tl_onMap := True\<rparr> else new))\<rparr>)))"

definition updateGIBSLayersWithDate :: "(string \<Rightarrow> bool) \<Rightarrow> string \<Rightarrow> session \<Rightarrow> session" where
  "updateGIBSLayersWithDate fails dateStr s =
     (case andThen (andThen (andThen
             (rebuildLayer fails dateStr Temperature
                (s\<lparr>currentDate := Some dateStr,
                   console := console s @ [Log ''Updating layers to date:'']\<rparr>))
             (rebuildLayer fails dateStr NightLights))
             (rebuildLayer fails dateStr Vegetation))
             (\<lambda>s'. Done (s'\<lparr>console := console s' @ [Log ''Layers updated'']\<rparr>)) of
        Done r \<Rightarrow> r
      | Threw e r \<Rightarrow> r\<lparr>console := console r @ [Err ''Error updating layers:'']\<rparr>)"

text \<open>The order in which the three blocks run.\<close>

fun rank :: "layerKey \<Rightarrow> nat" where
  "rank Temperature = 0"
| "rank NightLights = 1"
| "rank Vegetation = 2"

text \<open>What a successful block leaves under a key that held \<open>old\<close>.\<close>

definition rebuilt :: "string \<Rightarrow> layerKey \<Rightarrow> tileLayer \<Rightarrow> tileLayer" where
  "rebuilt dateStr k old =
     \<lparr>tl_url = createGIBSTileUrl (GIBS_layers k) dateStr, tl_maxZoom = maxZoom (GIBS_layers k),
      tl_attribution = attribution (GIBS_layers k), tl_opacity = opacity (GIBS_layers k),
      tl_onMap = tl_onMap old\<rparr>"

section \<open>Placements\<close>

text \<open>
  \<^verbatim>\<open>window.removeMarker\<close> walks the layer group and removes the layer with the given
  id. It touches nothing else; with \<^verbatim>\<open>drawnLayers\<close> still undefined the call
  throws to its caller.
\<close>

definition removeMarker :: "nat \<Rightarrow> session \<Rightarrow> outcome" where
  "removeMarker layerId s =
     (case drawnLayers s of
        None \<Rightarrow> Threw ''TypeError'' s
      | Some ms \<Rightarrow> Done (s\<lparr>drawnLayers := Some (filter (\<lambda>(i, m). i \<noteq> layerId) ms)\<rparr>))"

definition clearAllMarkers :: "session \<Rightarrow> outcome" where
  "clearAllMarkers s =
     (case drawnLayers s of
        None \<Rightarrow> Threw ''TypeError'' s
      | Some ms \<Rightarrow>
         Done (s\<lparr>drawnLayers := Some [],
                 selectedPoints := [],
                 el_recommendations := map_option (\<lambda>old. []) (el_recommendations s),
                 heatLayer := map_option (\<lambda>h. h\<lparr>h_circles := []\<rparr>) (heatLayer s),
                 console := console s @ [Log ''All markers cleared'']\<rparr>))"

text \<open>
  The change handler of the heatmap checkbox (\<^verbatim>\<open>setupLayerToggle\<close> with key
  \<^verbatim>\<open>analysisHeat\<close>); \<open>checked\<close> is the checkbox's new state.
\<close>

definition heatmapToggled :: "bool \<Rightarrow> session \<Rightarrow> outcome" where
  "heatmapToggled checked s0 =
     (let s = s0\<lparr>el_layer_heatmap := map_option (\<lambda>old. checked) (el_layer_heatmap s0)\<rparr> in
      case heatLayer s of
        None \<Rightarrow> Done s
      | Some h \<Rightarrow>
         if \<not> mapCreated s then Threw ''TypeError'' s
         else Done (s\<lparr>heatLayer := Some (h\<lparr>h_onMap := checked\<rparr>)\<rparr>))"

section \<open>Numbers\<close>

text \<open>
  JavaScript numbers are IEEE 754 binary64 values. The script compares them, which is
  exact, and in one place subtracts and divides them, which rounds to the nearest double,
  a tie going to the double with the even significand. \<open>toDouble\<close> is that rounding
  for a real of any magnitude. \<open>binade x\<close> is the exponent \<open>e\<close> with
  \<open>2 powi e \<le> \<bar>x\<bar>\<close> and \<open>\<bar>x\<bar> < 2 powi (e + 1)\<close>; the doubles of that binade are
  the multiples of \<open>2 powi (e - 52)\<close>, and below \<open>2 powi (- 1022)\<close> the subnormal
  doubles are the multiples of \<open>2 powi (- 1074)\<close>.
\<close>

definition roundTiesToEven :: "real \<Rightarrow> int" where
  "roundTiesToEven y =
     (let f = \<lfloor>y\<rfloor>; d = y - of_int f
      in if d < 1 / 2 then f else if d > 1 / 2 then f + 1 else if even f then f else f + 1)"

definition binade :: "real \<Rightarrow> int" where
  "binade x =
     (if \<bar>x\<bar> \<ge> 1 then bitlen \<lfloor>\<bar>x\<bar>\<rfloor> - 1 else - bitlen (\<lceil>1 / \<bar>x\<bar>\<rceil> - 1))"

definition toDouble :: "real \<Rightarrow> real" where
  "toDouble x =
     (if x = 0 then 0
      else let quantum = 2 powi (max (binade x) (- 1022) - 52)
           in of_int (roundTiesToEven (x / quantum)) * quantum)"

text \<open>
  The result of an operation is a finite double, an infinity when the rounded value
  reaches \<open>2 ^ 1024\<close>, or \<^verbatim>\<open>NaN\<close>. The two zeros are not told apart.
\<close>

datatype jsnum = Num real | PosInfinity | NegInfinity | NaN

definition double :: "real \<Rightarrow> jsnum" where
  "double x =
     (let r = toDouble x
      in if r \<ge> 2 ^ 1024 then PosInfinity else if r \<le> - (2 ^ 1024) then NegInfinity else Num r)"

text \<open>\<^verbatim>\<open>x - y\<close> for finite \<open>x\<close> and \<open>y\<close>.\<close>

definition jsSub :: "real \<Rightarrow> real \<Rightarrow> jsnum" where
  "jsSub x y = double (x - y)"

text \<open>
  \<^verbatim>\<open>a / b\<close>. A zero divisor is taken to be \<^verbatim>\<open>+0\<close>: the divisor of the script is a
  difference \<open>max - min\<close> with \<open>max > min\<close>, which is never negative.
\<close>

fun jsDiv :: "jsnum \<Rightarrow> jsnum \<Rightarrow> jsnum" where
  "jsDiv (Num x) (Num y) =
     (if y = 0 then (if x = 0 then NaN else if x > 0 then PosInfinity else NegInfinity)
      else double (x / y))"
| "jsDiv (Num x) PosInfinity = Num 0"
| "jsDiv (Num x) NegInfinity = Num 0"
| "jsDiv PosInfinity (Num y) = (if y < 0 then NegInfinity else PosInfinity)"
| "jsDiv NegInfinity (Num y) = (if y < 0 then PosInfinity else NegInfinity)"
| "jsDiv a b = NaN"

text \<open>\<^verbatim>\<open>a < c\<close> for a finite \<open>c\<close>: false for \<^verbatim>\<open>NaN\<close>.\<close>

fun jsLess :: "jsnum \<Rightarrow> real \<Rightarrow> bool" where
  "jsLess (Num x) c = (x < c)"
| "jsLess NegInfinity c = True"
| "jsLess PosInfinity c = False"
| "jsLess NaN c = False"

section \<open>Rendering results\<close>

text \<open>
  \<^verbatim>\<open>s.charAt(0).toUpperCase() + s.slice(1)\<close>. Strings are byte strings here and
  only the letters a to z are mapped, which covers the structure types of the page and
  the fallback \<^verbatim>\<open>'Unknown'\<close>.
\<close>

definition toUpperCase :: "char \<Rightarrow> char" where
  "toUpperCase c =
     (case map_of (zip ''abcdefghijklmnopqrstuvwxyz'' ''ABCDEFGHIJKLMNOPQRSTUVWXYZ'') c of
        None \<Rightarrow> c
      | Some u \<Rightarrow> u)"

fun capitalize :: "string \<Rightarrow> string" where
  "capitalize [] = []"
| "capitalize (c # cs) = toUpperCase c # cs"

definition scoreColor :: "real \<Rightarrow> string" where
  "scoreColor sc = (if sc \<ge> 70 then ''#10b981'' else if sc \<ge> 50 then ''#f59e0b'' else ''#ef4444'')"

text \<open>\<^verbatim>\<open>result.power_summary?.mean_temp\<close> and its siblings.\<close>

definition meanTempOf :: "result \<Rightarrow> real option" where
  "meanTempOf r = (case r_power_summary r of None \<Rightarrow> None | Some ps \<Rightarrow> mean_temp ps)"

definition meanPrecipOf :: "result \<Rightarrow> real option" where
  "meanPrecipOf r = (case r_power_summary r of None \<Rightarrow> None | Some ps \<Rightarrow> mean_precip ps)"

definition nDaysOf :: "result \<Rightarrow> nat option" where
  "nDaysOf r = (case r_power_summary r of None \<Rightarrow> None | Some ps \<Rightarrow> n_days ps)"

text \<open>
  \<^verbatim>\<open>selectedPoints[idx]\<close> is \<^verbatim>\<open>undefined\<close> past the end of the array, and the
  type then falls back to \<^verbatim>\<open>'Unknown'\<close>.
\<close>

definition structureTypeAt :: "point list \<Rightarrow> nat \<Rightarrow> string" where
  "structureTypeAt pts idx = (if idx < length pts then p_type (pts ! idx) else ''Unknown'')"

definition renderRow :: "point list \<Rightarrow> nat \<times> result \<Rightarrow> row" where
  "renderRow pts ir =
     (case ir of (idx, result) \<Rightarrow>
        \<lparr>row_title = capitalize (structureTypeAt pts idx),
         row_number = idx + 1,
         row_borderColor = scoreColor (r_score result),
         row_score = r_score result,
         row_lat = r_lat result,
         row_lon = r_lon result,
         row_temp = meanTempOf result,
         row_precip = meanPrecipOf result,
         row_detailIndex = idx\<rparr>)"

definition displayResults :: "result list \<Rightarrow> session \<Rightarrow> session" where
  "displayResults results s =
     (case el_recommendations s of
        None \<Rightarrow> s
      | Some old \<Rightarrow>
         s\<lparr>el_recommendations :=
             Some (Heading # map (\<lambda>ir. Rec (renderRow (selectedPoints s) ir)) (enumerate 0 results)),
           analysisResults := Some results\<rparr>)"

text \<open>
  The first pass of \<^verbatim>\<open>updateAnalysisHeatmap\<close> folds \<^verbatim>\<open>Math.min\<close> and
  \<^verbatim>\<open>Math.max\<close> over the defined temperatures, starting from \<^verbatim>\<open>Infinity\<close> and
  \<^verbatim>\<open>-Infinity\<close>; \<open>None\<close> stands for the infinite starting value, so that
  \<^verbatim>\<open>isFinite\<close> is \<open>_ \<noteq> None\<close>.
\<close>

fun scanTemps :: "result list \<Rightarrow> real option \<times> real option \<Rightarrow> real option \<times> real option" where
  "scanTemps [] acc = acc"
| "scanTemps (r # rs) (minTemp, maxTemp) =
     (case meanTempOf r of
        None \<Rightarrow> scanTemps rs (minTemp, maxTemp)
      | Some temp \<Rightarrow>
         scanTemps rs
           (Some (case minTemp of None \<Rightarrow> temp | Some m \<Rightarrow> min m temp),
            Some (case maxTemp of None \<Rightarrow> temp | Some m \<Rightarrow> max m temp)))"

definition normalized :: "real \<Rightarrow> real \<Rightarrow> real \<Rightarrow> jsnum" where
  "normalized minTemp maxTemp temp =
     (if maxTemp > minTemp then jsDiv (jsSub temp minTemp) (jsSub maxTemp minTemp) else Num 0.5)"

definition heatColor :: "jsnum \<Rightarrow> string" where
  "heatColor n =
     (if jsLess n 0.25 then ''#3b82f6''
      else if jsLess n 0.5 then ''#22c55e''
      else if jsLess n 0.65 then ''#eab308''
      else if jsLess n 0.8 then ''#f97316''
      else ''#ef4444'')"

text \<open>The five colours, coolest first: bucket \<open>i\<close> is \<open>bucketColors ! i\<close>.\<close>

definition bucketColors :: "string list" where
  "bucketColors = [''#3b82f6'', ''#22c55e'', ''#eab308'', ''#f97316'', ''#ef4444'']"

fun heatCircles :: "real \<Rightarrow> real \<Rightarrow> result list \<Rightarrow> circle list" where
  "heatCircles minTemp maxTemp [] = []"
| "heatCircles minTemp maxTemp (r # rs) =
     (case meanTempOf r of
        None \<Rightarrow> heatCircles minTemp maxTemp rs
      | Some temp \<Rightarrow>
         \<lparr>c_lat = r_lat r, c_lon = r_lon r,
          c_fillColor = heatColor (normalized minTemp maxTemp temp),
          c_popupTemp = temp, c_popupScore = r_score r\<rparr> # heatCircles minTemp maxTemp rs)"

definition updateAnalysisHeatmap :: "result list \<Rightarrow> session \<Rightarrow> outcome" where
  "updateAnalysisHeatmap results s =
     (case heatLayer s of
        None \<Rightarrow> Threw ''TypeError'' s
      | Some h \<Rightarrow>
         let s1 = s\<lparr>heatLayer := Some (h\<lparr>h_circles := []\<rparr>)\<rparr> in
         if results = [] then Done s1
         else
           (case scanTemps results (None, None) of
              (Some minTemp, Some maxTemp) \<Rightarrow>
                let s2 = s1\<lparr>heatLayer := Some (h\<lparr>h_circles := heatCircles minTemp maxTemp results\<rparr>)\<rparr> in
                (case el_layer_heatmap s2 of
                   Some False \<Rightarrow>
                     let s3 = s2\<lparr>el_layer_heatmap := Some True\<rparr> in
                     if \<not> mapCreated s3 then Threw ''TypeError'' s3
                     else Done (s3\<lparr>heatLayer := Some (h\<lparr>h_circles := heatCircles minTemp maxTemp results,
                                                        h_onMap := True\<rparr>),
                                  console := console s3 @ [Log ''Heatmap updated'']\<rparr>)
                 | _ \<Rightarrow> Done (s2\<lparr>console := console s2 @ [Log ''Heatmap updated'']\<rparr>))
            | _ \<Rightarrow> Done (s1\<lparr>console := console s1 @ [Warn ''No valid temperature data for heatmap'']\<rparr>)))"

definition recommendationText :: "real \<Rightarrow> string" where
  "recommendationText sc =
     (if sc \<ge> 70 then ''Excellent location for infrastructure. High suitability based on climate and accessibility factors.''
      else if sc \<ge> 50 then ''Moderate suitability. Consider additional site assessments and potential improvements.''
      else ''Low suitability. This location may face significant challenges. Consider alternative sites.'')"

text \<open>
  \<^verbatim>\<open>window.showDetailedAnalysis(index)\<close>: \<^verbatim>\<open>results[index]\<close> is
  \<^verbatim>\<open>undefined\<close> for an index outside the array, negative ones included.
  \<^verbatim>\<open>nDays || 'N/A'\<close> shows a count of 0 as N/A.
\<close>

definition showDetailedAnalysis :: "int \<Rightarrow> session \<Rightarrow> session" where
  "showDetailedAnalysis index s =
     (case analysisResults s of
        None \<Rightarrow> s
      | Some results \<Rightarrow>
         if index < 0 \<or> nat index \<ge> length results then s
         else
           let result = results ! nat index;
               structType = structureTypeAt (selectedPoints s) (nat index)
           in (case (el_rec_modal s, el_rec_body s) of
                 (Some disp, Some old) \<Rightarrow>
                   s\<lparr>el_rec_body := Some (Some
                       \<lparr>d_title = capitalize structType @ '' Analysis'',
                        d_scoreColor = scoreColor (r_score result),
                        d_score = r_score result,
                        d_lat = r_lat result,
                        d_lon = r_lon result,
                        d_meanTemp = meanTempOf result,
                        d_meanPrecip = meanPrecipOf result,
                        d_days = (case nDaysOf result of None \<Rightarrow> None
                                  | Some n \<Rightarrow> if n = 0 then None else Some n),
                        d_ndvi = r_ndvi result,
                        d_population = r_population result,
                        d_structureType = structType,
                        d_recommendation = recommendationText (r_score result)\<rparr>),
                     el_rec_modal := Some ''flex''\<rparr>
               | _ \<Rightarrow> s))"

section \<open>The analysis run\<close>

text \<open>
  What the scoring call comes back with is not the script's to decide; it is the
  parameter of the run. \<open>NetworkFailure\<close> is a rejected \<^verbatim>\<open>fetch\<close>. \<open>Http\<close>
  carries the status, the status text and the parsed body, \<open>None\<close> when the body is not
  JSON and \<^verbatim>\<open>response.json()\<close> rejects. A body has an optional \<^verbatim>\<open>error\<close> string
  and an optional \<^verbatim>\<open>results\<close> array. \<^verbatim>\<open>response.ok\<close> is a status from 200 to
  299. The state is taken not to change while the request is in flight.
\<close>

record jsonBody =
  j_error :: "string option"
  j_results :: "result list option"

datatype response = NetworkFailure string | Http nat string "jsonBody option"

definition response_ok :: "nat \<Rightarrow> bool" where
  "response_ok status = (200 \<le> status \<and> status \<le> 299)"

fun show_nat :: "nat \<Rightarrow> string" where
  "show_nat n =
     (if n < 10 then [char_of (48 + n)] else show_nat (n div 10) @ [char_of (48 + n mod 10)])"

text \<open>
  The snapshot \<^verbatim>\<open>analyzePoints\<close> takes of the layer group: every layer with a
  truthy \<^verbatim>\<open>structureType\<close>, in the group's order.
\<close>

definition snapshot :: "(nat \<times> marker) list \<Rightarrow> point list" where
  "snapshot ms =
     map (\<lambda>(i, m). \<lparr>p_lat = m_lat m, p_lon = m_lng m, p_type = structureType m\<rparr>)
       (filter (\<lambda>(i, m). structureType m \<noteq> []) ms)"

text \<open>\<^verbatim>\<open>input && input.value ? input.value.replace(/-/g, '') : ''\<close>\<close>

definition compactDate :: "string option \<Rightarrow> string" where
  "compactDate el = (case el of None \<Rightarrow> [] | Some v \<Rightarrow> filter (\<lambda>c. c \<noteq> CHR ''-'') v)"

definition buildPayload :: "session \<Rightarrow> payload" where
  "buildPayload s =
     \<lparr>points = map (\<lambda>p. \<lparr>pp_lat = p_lat p, pp_lon = p_lon p, pp_type = p_type p,
                           pp_ndvi = 0.3, pp_population = 2000, pp_road_km = 1.0,
                           pp_water_km = 2.0\<rparr>) (selectedPoints s),
      pl_start = compactDate (el_start_date s),
      pl_end = compactDate (el_end_date s)\<rparr>"

text \<open>
  The \<^verbatim>\<open>try\<close> block of \<^verbatim>\<open>analyzePoints\<close>. The early \<^verbatim>\<open>return\<close> on an
  empty snapshot is \<open>Done\<close>; every \<^verbatim>\<open>throw\<close>, a rejected \<^verbatim>\<open>await\<close> included, is
  \<open>Threw\<close>.
\<close>

definition analyzeTry :: "response \<Rightarrow> session \<Rightarrow> outcome" where
  "analyzeTry resp s0 =
     (case drawnLayers s0 of
        None \<Rightarrow> Threw ''TypeError'' (s0\<lparr>selectedPoints := []\<rparr>)
      | Some ms \<Rightarrow>
         let s = s0\<lparr>selectedPoints := snapshot ms\<rparr> in
         if selectedPoints s = [] then
           Done (s\<lparr>alerts := alerts s @
             [''Please place at least one structure on the map before analyzing.'']\<rparr>)
         else
           let s1 = s\<lparr>el_loading := map_option (\<lambda>old. True) (el_loading s)\<rparr>;
               s2 = s1\<lparr>requests := requests s1 @ [buildPayload s1]\<rparr>
           in (case resp of
                 NetworkFailure e \<Rightarrow> Threw e s2
               | Http status statusText body \<Rightarrow>
                  if \<not> response_ok status then
                    Threw (''Server returned '' @ show_nat status @ '': '' @ statusText) s2
                  else
                    (case body of
                       None \<Rightarrow> Threw ''SyntaxError'' s2
                     | Some data \<Rightarrow>
                        (case j_error data of
                           Some (c # cs) \<Rightarrow> Threw (c # cs) s2
                         | _ \<Rightarrow>
                            (case j_results data of
                               Some (r # rs) \<Rightarrow>
                                 updateAnalysisHeatmap (r # rs) (displayResults (r # rs) s2)
                             | _ \<Rightarrow>
                                 Done (s2\<lparr>alerts := alerts s2 @
                                   [''No results returned from analysis.'']\<rparr>))))))"

text \<open>The \<^verbatim>\<open>catch\<close> logs and alerts; the \<^verbatim>\<open>finally\<close> hides the loading indicator.\<close>

definition analyzePoints :: "response \<Rightarrow> session \<Rightarrow> session" where
  "analyzePoints resp s =
     (let r = (case analyzeTry resp s of
                 Done r \<Rightarrow> r
               | Threw e r \<Rightarrow> r\<lparr>console := console r @ [Err ''Analysis error:''],
                                alerts := alerts r @ [''Analysis failed: '' @ e]\<rparr>)
      in r\<lparr>el_loading := map_option (\<lambda>old. False) (el_loading r)\<rparr>)"

section \<open>Notions used in the statements\<close>

text \<open>The state an operation leaves behind, whether it returned or threw.\<close>

fun stateOf :: "outcome \<Rightarrow> session" where
  "stateOf (Done s) = s"
| "stateOf (Threw e s) = s"

text \<open>
  The state of \<^verbatim>\<open>analyzePoints\<close> at its \<^verbatim>\<open>await fetch\<close>: the snapshot taken,
  the loading indicator shown, the request sent.
\<close>

definition requested :: "(nat \<times> marker) list \<Rightarrow> session \<Rightarrow> session" where
  "requested ms s =
     s\<lparr>selectedPoints := snapshot ms,
       el_loading := map_option (\<lambda>old. True) (el_loading s),
       requests := requests s @ [buildPayload (s\<lparr>selectedPoints := snapshot ms\<rparr>)]\<rparr>"

text \<open>The temperatures that are defined, in result order.\<close>

definition definedTemps :: "result list \<Rightarrow> real list" where
  "definedTemps rs = List.map_filter meanTempOf rs"

text \<open>
  The normalisation and the buckets as the specification words them: \<open>(t - min) / (max - min)\<close>
  over the defined temperatures, in the arithmetic of the script, and \<open>0.5\<close> when
  \<open>max = min\<close>; five buckets numbered from 0 with boundaries at 0.25, 0.5, 0.65 and
  0.8, a boundary value belonging to the upper bucket, so that the bucket of a value is
  the number of boundaries it has reached. A value that is not a finite number has
  reached every boundary, except \<^verbatim>\<open>-Infinity\<close>, which has reached none.
\<close>

definition spec_normalized :: "real list \<Rightarrow> real \<Rightarrow> jsnum" where
  "spec_normalized ts t =
     (if Max (set ts) = Min (set ts) then Num 0.5
      else jsDiv (jsSub t (Min (set ts))) (jsSub (Max (set ts)) (Min (set ts))))"

definition spec_bucket :: "real \<Rightarrow> nat" where
  "spec_bucket n = length (filter (\<lambda>b. b \<le> n) [0.25, 0.5, 0.65, 0.8])"

definition bucketOf :: "jsnum \<Rightarrow> nat" where
  "bucketOf v = (case v of Num n \<Rightarrow> spec_bucket n | NegInfinity \<Rightarrow> 0 | _ \<Rightarrow> 4)"

section \<open>A sample session\<close>

definition examplePage :: session where
  "examplePage = \<lparr>mapCreated = False, drawnLayers = None, selectedPoints = [], heatLayer = None,
     activeLayers = (\<lambda>k. None), currentDate = None, analysisResults = None,
     el_recommendations = Some [], el_loading = Some False, el_layer_heatmap = Some False,
     el_start_date = Some ''2024-01-01'', el_end_date = Some ''2024-01-31'',
     el_rec_modal = Some ''none'', el_rec_body = Some None,
     alerts = [], console = [], requests = []\<rparr>"

text \<open>The state \<^verbatim>\<open>initMap\<close> leaves when nothing fails, the imagery date being 2024-01-28.\<close>

definition exampleLayers :: session where
  "exampleLayers = initializeGIBSLayers (\<lambda>u. False)
     (examplePage\<lparr>mapCreated := True, drawnLayers := Some [],
        heatLayer := Some \<lparr>h_circles = [], h_onMap = False\<rparr>,
        currentDate := Some ''2024-01-28''\<rparr>)"

definition examplePlaced :: session where
  "examplePlaced = exampleLayers\<lparr>drawnLayers := Some
     [(41, \<lparr>m_lat = 8, m_lng = 76, structureType = ''house''\<rparr>),
      (42, \<lparr>m_lat = 9, m_lng = 77, structureType = ''hospital''\<rparr>)]\<rparr>"

definition exampleResults :: "result list" where
  "exampleResults =
     [\<lparr>r_lat = 8, r_lon = 76, r_score = 80, r_ndvi = 0.3, r_population = 2000,
       r_power_summary = Some \<lparr>mean_temp = Some 27, mean_precip = Some 3, n_days = Some 31\<rparr>\<rparr>,
      \<lparr>r_lat = 9, r_lon = 77, r_score = 45, r_ndvi = 0.3, r_population = 2000,
       r_power_summary = Some \<lparr>mean_temp = Some 29, mean_precip = None, n_days = Some 31\<rparr>\<rparr>]"

definition exampleSuccess :: response where
  "exampleSuccess = Http 200 ''OK'' (Some \<lparr>j_error = None, j_results = Some exampleResults\<rparr>)"

definition exampleAnalyzed :: session where
  "exampleAnalyzed = analyzePoints exampleSuccess examplePlaced"

text \<open>A response in which the first result carries no temperature.\<close>

definition exampleNoTemp :: "result list" where
  "exampleNoTemp =
     [\<lparr>r_lat = 8, r_lon = 76, r_score = 80, r_ndvi = 0.3, r_population = 2000,
       r_power_summary = None\<rparr>,
      \<lparr>r_lat = 9, r_lon = 77, r_score = 45, r_ndvi = 0.3, r_population = 2000,
       r_power_summary = Some \<lparr>mean_temp = Some 29, mean_precip = None, n_days = Some 31\<rparr>\<rparr>]"

text \<open>
  Three results whose temperatures are the doubles written 5.2, 12 and 13.7, given by
  their exact values. In doubles \<open>(12 - 5.2) / (13.7 - 5.2)\<close> is 0.7999999999999999,
  just below the boundary 0.8.
\<close>

definition exampleRounding :: "result list" where
  "exampleRounding =
     [\<lparr>r_lat = 8, r_lon = 76, r_score = 80, r_ndvi = 0.3, r_population = 2000,
       r_power_summary = Some \<lparr>mean_temp = Some (5854679515581645 / 1125899906842624),
         mean_precip = None, n_days = None\<rparr>\<rparr>,
      \<lparr>r_lat = 9, r_lon = 77, r_score = 45, r_ndvi = 0.3, r_population = 2000,
       r_power_summary = Some \<lparr>mean_temp = Some 12, mean_precip = None, n_days = None\<rparr>\<rparr>,
      \<lparr>r_lat = 10, r_lon = 78, r_score = 60, r_ndvi = 0.3, r_population = 2000,
       r_power_summary = Some \<lparr>mean_temp = Some (3856207180935987 / 281474976710656),
         mean_precip = None, n_days = None\<rparr>\<rparr>]"

text \<open>The user switches the heatmap on and off again before analysing.\<close>

definition exampleToggledOff :: session where
  "exampleToggledOff = stateOf (heatmapToggled False (stateOf (heatmapToggled True examplePlaced)))"

section \<open>Imagery layers: date changes\<close>

lemma all_keys: "(\<forall>j. P j) = (P Temperature \<and> P NightLights \<and> P Vegetation)"
  by (metis layerKey.exhaust)

lemma rebuildLayer_ok:
  assumes "\<not> fails (createGIBSTileUrl (GIBS_layers k) d)" "mapCreated s"
  shows "rebuildLayer fails d k s =
    Done (s\<lparr>activeLayers := (activeLayers s)(k := map_option (rebuilt d k) (activeLayers s k))\<rparr>)"
  using assms
  by (auto simp: rebuildLayer_def L_tileLayer_def Let_def rebuilt_def fun_upd_idem
      split: option.splits)

lemma rebuildLayer_nomap:
  assumes "\<not> mapCreated s"
  shows "rebuildLayer fails d k s =
    (if activeLayers s k = None then Done s else Threw ''TypeError'' s)"
  using assms
  by (auto simp: rebuildLayer_def split: option.splits)

lemma rebuildLayer_fail:
  assumes "fails (createGIBSTileUrl (GIBS_layers k) d)" "mapCreated s"
  shows "rebuildLayer fails d k s =
    (case activeLayers s k of
       None \<Rightarrow> Done s
     | Some l \<Rightarrow> Threw ''tileLayer''
         (s\<lparr>activeLayers := (activeLayers s)(k \<mapsto> l\<lparr>tl_onMap := False\<rparr>)\<rparr>))"
  using assms
  by (simp add: rebuildLayer_def L_tileLayer_def Let_def split: option.splits)

lemma update_layers_ok:
  assumes "\<And>u. \<not> fails u"
  shows "activeLayers (updateGIBSLayersWithDate fails d s) =
     (if mapCreated s then (\<lambda>k. map_option (rebuilt d k) (activeLayers s k))
      else activeLayers s)"
proof (cases "mapCreated s")
  case True
  have "activeLayers (updateGIBSLayersWithDate fails d s) k
      = map_option (rebuilt d k) (activeLayers s k)" for k
    using True assms by (cases k) (simp_all add: updateGIBSLayersWithDate_def rebuildLayer_ok)
  then show ?thesis using True by auto
next
  case False
  then show ?thesis
    by (simp add: updateGIBSLayersWithDate_def rebuildLayer_nomap)
qed

lemma update_mapCreated: "mapCreated (updateGIBSLayersWithDate fails d s) = mapCreated s"
  by (auto simp: updateGIBSLayersWithDate_def rebuildLayer_def L_tileLayer_def Let_def
      split: option.splits outcome.splits)

text \<open>
  A build that fails leaves its own layer off the map: the old layer was removed before
  the constructor ran and nothing puts it back.
\<close>

lemma failed_build_detaches:
  assumes "mapCreated s" and "activeLayers s Temperature = Some l"
    and "fails (createGIBSTileUrl (GIBS_layers Temperature) d)"
  shows "activeLayers (updateGIBSLayersWithDate fails d s) Temperature
     = Some (l\<lparr>tl_onMap := False\<rparr>)"
  using assms by (simp add: updateGIBSLayersWithDate_def rebuildLayer_fail)

text \<open>The sample session: every layer is registered for 2024-01-28, temperature alone on the map.\<close>

lemma exampleLayers_layer:
  "activeLayers exampleLayers k =
     Some \<lparr>tl_url = createGIBSTileUrl (GIBS_layers k) ''2024-01-28'',
       tl_maxZoom = maxZoom (GIBS_layers k), tl_attribution = attribution (GIBS_layers k),
       tl_opacity = opacity (GIBS_layers k), tl_onMap = (k = Temperature)\<rparr>"
  by (cases k)
    (simp_all add: exampleLayers_def examplePage_def initializeGIBSLayers_def initLayer_def
      L_tileLayer_def)

lemma exampleLayers_map: "mapCreated exampleLayers"
  by (simp add: exampleLayers_def examplePage_def initializeGIBSLayers_def initLayer_def
      L_tileLayer_def)

subsection \<open>A failing build (C1)\<close>

text \<open>
  In the sample session the temperature build is made to fail for 2024-02-01. The night
  lights layer, which comes after it, is then not rebuilt: it still carries the URL of
  2024-01-28.
\<close>

theorem setDate_failure_counterexample:
  "map_option tl_url (activeLayers (updateGIBSLayersWithDate
       (\<lambda>u. u = createGIBSTileUrl (GIBS_layers Temperature) ''2024-02-01'') ''2024-02-01''
       exampleLayers) NightLights)
     = Some (createGIBSTileUrl (GIBS_layers NightLights) ''2024-01-28'')
   \<and> createGIBSTileUrl (GIBS_layers NightLights) ''2024-01-28''
     \<noteq> createGIBSTileUrl (GIBS_layers NightLights) ''2024-02-01''"
  by (simp add: updateGIBSLayersWithDate_def rebuildLayer_fail exampleLayers_map
      exampleLayers_layer createGIBSTileUrl_def)

text \<open>
  C1, as the code has it. When the build of a registered layer fails, the failure is
  logged and \<^verbatim>\<open>updateGIBSLayersWithDate\<close> returns, but the update stops at that
  layer: the layers that come later in the order temperature, nightLights, vegetation are
  left exactly as they were, neither detached nor rebuilt, and only the layers that come
  earlier have been rebuilt for the new date, each on the map exactly if it was before.
\<close>

theorem setDate_failure_stops_update:
  assumes "mapCreated s" and "activeLayers s k = Some l"
    and "fails (createGIBSTileUrl (GIBS_layers k) d)"
    and "\<And>j. rank j < rank k \<Longrightarrow> \<not> fails (createGIBSTileUrl (GIBS_layers j) d)"
  shows "last (console (updateGIBSLayersWithDate fails d s)) = Err ''Error updating layers:''
    \<and> (\<forall>j. rank k < rank j \<longrightarrow>
          activeLayers (updateGIBSLayersWithDate fails d s) j = activeLayers s j)
    \<and> (\<forall>j. rank j < rank k \<longrightarrow>
          activeLayers (updateGIBSLayersWithDate fails d s) j
            = map_option (rebuilt d j) (activeLayers s j))"
proof (cases k)
  case Temperature
  have "updateGIBSLayersWithDate fails d s =
      s\<lparr>currentDate := Some d,
        console := console s @ [Log ''Updating layers to date:'', Err ''Error updating layers:''],
        activeLayers := (activeLayers s)(Temperature \<mapsto> l\<lparr>tl_onMap := False\<rparr>)\<rparr>"
    using assms(1-3) unfolding Temperature
    by (simp add: updateGIBSLayersWithDate_def rebuildLayer_fail)
  then show ?thesis
    unfolding Temperature by (simp add: all_keys)
next
  case NightLights
  have t: "\<not> fails (createGIBSTileUrl (GIBS_layers Temperature) d)"
    using assms(4) [of Temperature] by (simp add: NightLights)
  have "updateGIBSLayersWithDate fails d s =
      s\<lparr>currentDate := Some d,
        console := console s @ [Log ''Updating layers to date:'', Err ''Error updating layers:''],
        activeLayers := (activeLayers s)
          (Temperature := map_option (rebuilt d Temperature) (activeLayers s Temperature),
           NightLights \<mapsto> l\<lparr>tl_onMap := False\<rparr>)\<rparr>"
    using assms(1-3) t unfolding NightLights
    by (simp add: updateGIBSLayersWithDate_def rebuildLayer_fail rebuildLayer_ok)
  then show ?thesis
    unfolding NightLights by (simp add: all_keys)
next
  case Vegetation
  have t: "\<not> fails (createGIBSTileUrl (GIBS_layers Temperature) d)"
    using assms(4) [of Temperature] by (simp add: Vegetation)
  have n: "\<not> fails (createGIBSTileUrl (GIBS_layers NightLights) d)"
    using assms(4) [of NightLights] by (simp add: Vegetation)
  have "updateGIBSLayersWithDate fails d s =
      s\<lparr>currentDate := Some d,
        console := console s @ [Log ''Updating layers to date:'', Err ''Error updating layers:''],
        activeLayers := (activeLayers s)
          (Temperature := map_option (rebuilt d Temperature) (activeLayers s Temperature),
           NightLights := map_option (rebuilt d NightLights) (activeLayers s NightLights),
           Vegetation \<mapsto> l\<lparr>tl_onMap := False\<rparr>)\<rparr>"
    using assms(1-3) t n unfolding Vegetation
    by (simp add: updateGIBSLayersWithDate_def rebuildLayer_fail rebuildLayer_ok)
  then show ?thesis
    unfolding Vegetation by (simp add: all_keys)
qed

theorem setDate_failure_stops_update_witness:
  "last (console (updateGIBSLayersWithDate
       (\<lambda>u. u = createGIBSTileUrl (GIBS_layers NightLights) ''2024-02-01'') ''2024-02-01''
       exampleLayers)) = Err ''Error updating layers:''
   \<and> map_option tl_url (activeLayers (updateGIBSLayersWithDate
       (\<lambda>u. u = createGIBSTileUrl (GIBS_layers NightLights) ''2024-02-01'') ''2024-02-01''
       exampleLayers) Vegetation)
     = Some (createGIBSTileUrl (GIBS_layers Vegetation) ''2024-01-28'')
   \<and> map_option tl_url (activeLayers (updateGIBSLayersWithDate
       (\<lambda>u. u = createGIBSTileUrl (GIBS_layers NightLights) ''2024-02-01'') ''2024-02-01''
       exampleLayers) Temperature)
     = Some (createGIBSTileUrl (GIBS_layers Temperature) ''2024-02-01'')"
proof -
  let ?fails = "\<lambda>u. u = createGIBSTileUrl (GIBS_layers NightLights) ''2024-02-01''"
  have f: "?fails (createGIBSTileUrl (GIBS_layers NightLights) ''2024-02-01'')" by simp
  have b: "\<not> ?fails (createGIBSTileUrl (GIBS_layers j) ''2024-02-01'')"
    if "rank j < rank NightLights" for j
    using that by (cases j) (simp_all add: createGIBSTileUrl_def)
  from setDate_failure_stops_update [of exampleLayers NightLights _ ?fails "''2024-02-01''",
      OF exampleLayers_map exampleLayers_layer f b]
  show ?thesis
    by (simp add: all_keys exampleLayers_layer rebuilt_def)
qed

subsection \<open>Two date changes in a row (C3)\<close>

text \<open>
  C3. For every registered layer and all dates \<open>d1\<close> and \<open>d2\<close>, after
  \<^verbatim>\<open>updateGIBSLayersWithDate(d1)\<close> and then \<^verbatim>\<open>updateGIBSLayersWithDate(d2)\<close> the
  layer registered under the key is on the map exactly if the one registered before
  was, and it carries the tile URL of \<open>d2\<close>: a date change swaps the tile source and
  neither attaches a detached layer nor detaches an attached one. The tile layer
  constructor is taken not to throw, as the claim's replaced tile source presupposes.
\<close>

theorem setDate_twice_keeps_attachment:
  assumes "\<And>u. \<not> fails u" and "activeLayers s k = Some l"
  shows "\<exists>l'. activeLayers
        (updateGIBSLayersWithDate fails d2 (updateGIBSLayersWithDate fails d1 s)) k = Some l'
     \<and> tl_onMap l' = tl_onMap l
     \<and> (mapCreated s \<longrightarrow> tl_url l' = createGIBSTileUrl (GIBS_layers k) d2)"
  using assms by (simp add: update_layers_ok update_mapCreated rebuilt_def)

theorem setDate_twice_keeps_attachment_witness:
  "map_option tl_onMap (activeLayers (updateGIBSLayersWithDate (\<lambda>u. False) ''2024-02-02''
       (updateGIBSLayersWithDate (\<lambda>u. False) ''2024-02-01'' exampleLayers)) Temperature)
     = Some True
   \<and> map_option tl_onMap (activeLayers (updateGIBSLayersWithDate (\<lambda>u. False) ''2024-02-02''
       (updateGIBSLayersWithDate (\<lambda>u. False) ''2024-02-01'' exampleLayers)) NightLights)
     = Some False
   \<and> map_option tl_url (activeLayers (updateGIBSLayersWithDate (\<lambda>u. False) ''2024-02-02''
       (updateGIBSLayersWithDate (\<lambda>u. False) ''2024-02-01'' exampleLayers)) NightLights)
     = Some (createGIBSTileUrl (GIBS_layers NightLights) ''2024-02-02'')"
proof -
  have n: "\<not> (\<lambda>u. False) u" for u :: string by simp
  from setDate_twice_keeps_attachment [of "\<lambda>u. False" exampleLayers Temperature _
      "''2024-02-02''" "''2024-02-01''", OF n exampleLayers_layer]
    setDate_twice_keeps_attachment [of "\<lambda>u. False" exampleLayers NightLights _
      "''2024-02-02''" "''2024-02-01''", OF n exampleLayers_layer]
  show ?thesis
    by (auto simp: exampleLayers_map)
qed

subsection \<open>A date change with no layer registered (C8)\<close>

text \<open>
  Before \<^verbatim>\<open>initMap\<close> has run no layer is registered. A date change in that state
  raises nothing and alerts nothing: it returns after recording the date and writing its
  two ordinary log lines.
\<close>

theorem setDate_without_layers_counterexample:
  "updateGIBSLayersWithDate (\<lambda>u. False) ''2024-02-01'' (moduleLoaded examplePage) =
     (moduleLoaded examplePage)\<lparr>currentDate := Some ''2024-02-01'',
        console := [Log ''Updating layers to date:'', Log ''Layers updated'']\<rparr>
   \<and> alerts (updateGIBSLayersWithDate (\<lambda>u. False) ''2024-02-01'' (moduleLoaded examplePage)) = []"
  by (simp add: updateGIBSLayersWithDate_def rebuildLayer_def moduleLoaded_def examplePage_def)

text \<open>
  C8, as the code has it. With no layer registered, \<^verbatim>\<open>updateGIBSLayersWithDate\<close>
  does not signal an error, whatever the constructor would do: it records the new
  current date, logs that the update started and that it finished, and returns, every
  other part of the state unchanged.
\<close>

theorem setDate_without_layers:
  assumes "\<And>k. activeLayers s k = None"
  shows "updateGIBSLayersWithDate fails d s =
    s\<lparr>currentDate := Some d,
      console := console s @ [Log ''Updating layers to date:'', Log ''Layers updated'']\<rparr>"
  using assms by (simp add: updateGIBSLayersWithDate_def rebuildLayer_def)

theorem setDate_without_layers_witness:
  "currentDate (updateGIBSLayersWithDate (\<lambda>u. True) ''2024-02-01'' (moduleLoaded examplePage))
     = Some ''2024-02-01''
   \<and> console (updateGIBSLayersWithDate (\<lambda>u. True) ''2024-02-01'' (moduleLoaded examplePage))
     = [Log ''Updating layers to date:'', Log ''Layers updated'']"
proof -
  have "activeLayers (moduleLoaded examplePage) k = None" for k
    by (simp add: moduleLoaded_def)
  from setDate_without_layers [of "moduleLoaded examplePage" "\<lambda>u. True" "''2024-02-01''", OF this]
  show ?thesis by (simp add: moduleLoaded_def examplePage_def)
qed

section \<open>Analysis and rendering: auxiliary facts\<close>

lemma definedTemps_Nil [simp]: "definedTemps [] = []"
  by (simp add: definedTemps_def map_filter_simps)

lemma definedTemps_Cons:
  "definedTemps (r # rs) = (case meanTempOf r of None \<Rightarrow> definedTemps rs | Some t \<Rightarrow> t # definedTemps rs)"
  by (simp add: definedTemps_def map_filter_simps split: option.splits)

lemma heatColor_bucket: "heatColor v = bucketColors ! bucketOf v"
  by (cases v) (simp_all add: heatColor_def bucketColors_def spec_bucket_def bucketOf_def)

lemma scanTemps_fold:
  "scanTemps rs (mn, mx) =
     (case definedTemps rs of
        [] \<Rightarrow> (mn, mx)
      | t # ts \<Rightarrow>
         (Some (fold min ts (case mn of None \<Rightarrow> t | Some m \<Rightarrow> min m t)),
          Some (fold max ts (case mx of None \<Rightarrow> t | Some m \<Rightarrow> max m t))))"
proof (induction rs arbitrary: mn mx)
  case Nil
  show ?case by simp
next
  case (Cons r rs)
  show ?case
  proof (cases "meanTempOf r")
    case None
    then show ?thesis by (simp add: Cons.IH definedTemps_Cons)
  next
    case (Some t)
    then show ?thesis
      by (simp add: Cons.IH definedTemps_Cons min.commute max.commute split: list.splits)
  qed
qed

lemma fold_min_Min: "fold min ts (t::real) = Min (insert t (set ts))"
  using Min.set_eq_fold [of t ts] by simp

lemma fold_max_Max: "fold max ts (t::real) = Max (insert t (set ts))"
  using Max.set_eq_fold [of t ts] by simp

lemma scanTemps_MinMax:
  "scanTemps rs (None, None) =
     (if definedTemps rs = [] then (None, None)
      else (Some (Min (set (definedTemps rs))), Some (Max (set (definedTemps rs)))))"
  by (simp add: scanTemps_fold fold_min_Min fold_max_Max split: list.splits)

lemma normalized_spec:
  assumes "t \<in> set ts"
  shows "normalized (Min (set ts)) (Max (set ts)) t = spec_normalized ts t"
proof -
  have "Min (set ts) \<le> Max (set ts)"
    using assms by (metis List.finite_set Max_ge Min_le order_trans)
  then show ?thesis
    by (auto simp: normalized_def spec_normalized_def)
qed

lemma heatCircles_temps: "map c_popupTemp (heatCircles lo hi rs) = definedTemps rs"
  by (induction rs) (simp_all add: definedTemps_Cons split: option.splits)

lemma heatCircles_all2:
  "list_all2 (\<lambda>c t. c_fillColor c = heatColor (normalized lo hi t) \<and> c_popupTemp c = t)
     (heatCircles lo hi rs) (definedTemps rs)"
  by (induction rs) (simp_all add: definedTemps_Cons split: option.splits)

lemma heatCircles_places:
  "map (\<lambda>c. (c_lat c, c_lon c)) (heatCircles lo hi rs) =
   map (\<lambda>r. (r_lat r, r_lon r)) (filter (\<lambda>r. meanTempOf r \<noteq> None) rs)"
  by (induction rs) (simp_all split: option.splits)

lemma heat_circles_after:
  assumes "heatLayer s = Some h"
  shows "map_option h_circles (heatLayer (stateOf (updateAnalysisHeatmap rs s))) =
     Some (if definedTemps rs = [] then []
           else heatCircles (Min (set (definedTemps rs))) (Max (set (definedTemps rs))) rs)"
proof (cases "rs = []")
  case True
  then show ?thesis using assms by (simp add: updateAnalysisHeatmap_def)
next
  case False
  then show ?thesis using assms
    by (simp add: updateAnalysisHeatmap_def scanTemps_MinMax Let_def split: option.splits bool.splits)
qed

lemma displayResults_present:
  assumes "el_recommendations s = Some old"
  shows "displayResults rs s =
     s\<lparr>el_recommendations :=
         Some (Heading # map (\<lambda>ir. Rec (renderRow (selectedPoints s) ir)) (enumerate 0 rs)),
       analysisResults := Some rs\<rparr>"
  using assms by (simp add: displayResults_def)

lemma displayResults_frame:
  "heatLayer (displayResults rs s) = heatLayer s"
  "el_layer_heatmap (displayResults rs s) = el_layer_heatmap s"
  "mapCreated (displayResults rs s) = mapCreated s"
  "selectedPoints (displayResults rs s) = selectedPoints s"
  by (simp_all add: displayResults_def split: option.splits)

lemma heatmap_frame:
  "el_recommendations (stateOf (updateAnalysisHeatmap rs s)) = el_recommendations s"
  "analysisResults (stateOf (updateAnalysisHeatmap rs s)) = analysisResults s"
  "selectedPoints (stateOf (updateAnalysisHeatmap rs s)) = selectedPoints s"
  by (simp_all add: updateAnalysisHeatmap_def Let_def split: option.splits bool.splits prod.splits)

lemma analyzePoints_stateOf:
  "el_recommendations (analyzePoints resp s) = el_recommendations (stateOf (analyzeTry resp s))"
  "heatLayer (analyzePoints resp s) = heatLayer (stateOf (analyzeTry resp s))"
  "analysisResults (analyzePoints resp s) = analysisResults (stateOf (analyzeTry resp s))"
  "el_layer_heatmap (analyzePoints resp s) = el_layer_heatmap (stateOf (analyzeTry resp s))"
  "requests (analyzePoints resp s) = requests (stateOf (analyzeTry resp s))"
  "selectedPoints (analyzePoints resp s) = selectedPoints (stateOf (analyzeTry resp s))"
  by (cases "analyzeTry resp s"; simp add: analyzePoints_def)+

lemma analyzeTry_success:
  assumes "drawnLayers s = Some ms" "snapshot ms \<noteq> []" "response_ok st" "rs \<noteq> []"
  shows "analyzeTry (Http st txt (Some \<lparr>j_error = None, j_results = Some rs\<rparr>)) s =
     updateAnalysisHeatmap rs (displayResults rs (requested ms s))"
  using assms
  by (cases rs) (simp_all add: analyzeTry_def Let_def requested_def buildPayload_def)

lemma requested_fields:
  "el_recommendations (requested ms s) = el_recommendations s"
  "heatLayer (requested ms s) = heatLayer s"
  "selectedPoints (requested ms s) = snapshot ms"
  "el_layer_heatmap (requested ms s) = el_layer_heatmap s"
  "mapCreated (requested ms s) = mapCreated s"
  "analysisResults (requested ms s) = analysisResults s"
  by (simp_all add: requested_def)

lemma analyzeTry_rendered:
  assumes "drawnLayers s = Some ms" "snapshot ms \<noteq> []" "response_ok st" "rs \<noteq> []"
    and "j_error data = None \<or> j_error data = Some []" and "j_results data = Some rs"
  shows "analyzeTry (Http st txt (Some data)) s =
     updateAnalysisHeatmap rs (displayResults rs (requested ms s))"
  using assms
  by (cases rs) (auto simp: analyzeTry_def Let_def requested_def buildPayload_def)

lemma rendered_rows:
  assumes "drawnLayers s = Some ms" "snapshot ms \<noteq> []" "response_ok st" "rs \<noteq> []"
    and "j_error data = None \<or> j_error data = Some []" and "j_results data = Some rs"
    and "el_recommendations s = Some old"
  shows "el_recommendations (analyzePoints (Http st txt (Some data)) s) =
     Some (Heading # map (\<lambda>ir. Rec (renderRow (snapshot ms) ir)) (enumerate 0 rs))"
  using assms
  by (simp add: analyzePoints_stateOf analyzeTry_rendered heatmap_frame displayResults_present
      requested_fields)

lemma rendered_results:
  assumes "drawnLayers s = Some ms" "snapshot ms \<noteq> []" "response_ok st" "rs \<noteq> []"
    and "j_error data = None \<or> j_error data = Some []" and "j_results data = Some rs"
    and "el_recommendations s = Some old"
  shows "analysisResults (analyzePoints (Http st txt (Some data)) s) = Some rs"
  using assms
  by (simp add: analyzePoints_stateOf analyzeTry_rendered heatmap_frame displayResults_present
      requested_fields)

lemma rendered_circles:
  assumes "drawnLayers s = Some ms" "snapshot ms \<noteq> []" "response_ok st" "rs \<noteq> []"
    and "j_error data = None \<or> j_error data = Some []" and "j_results data = Some rs"
    and "heatLayer s = Some h"
  shows "map_option h_circles (heatLayer (analyzePoints (Http st txt (Some data)) s)) =
     Some (if definedTemps rs = [] then []
           else heatCircles (Min (set (definedTemps rs))) (Max (set (definedTemps rs))) rs)"
  using assms
  by (simp add: analyzePoints_stateOf analyzeTry_rendered heat_circles_after displayResults_frame
      requested_fields)

lemma renderRow_nth:
  assumes "i < length rs"
  shows "renderRow pts (enumerate 0 rs ! i) =
     \<lparr>row_title = capitalize (structureTypeAt pts i), row_number = i + 1,
      row_borderColor = scoreColor (r_score (rs ! i)), row_score = r_score (rs ! i),
      row_lat = r_lat (rs ! i), row_lon = r_lon (rs ! i),
      row_temp = meanTempOf (rs ! i), row_precip = meanPrecipOf (rs ! i),
      row_detailIndex = i\<rparr>"
  using assms by (simp add: renderRow_def nth_enumerate_eq)

lemma no_defined_temps:
  "(definedTemps rs = []) = (filter (\<lambda>r. meanTempOf r \<noteq> None) rs = [])"
  by (induction rs) (simp_all add: definedTemps_Cons split: option.splits)

lemma analyzePoints_drawn: "drawnLayers (analyzePoints resp s) = drawnLayers s"
proof -
  have "drawnLayers (stateOf (updateAnalysisHeatmap rs t)) = drawnLayers t" for rs t
    by (simp add: updateAnalysisHeatmap_def Let_def split: option.splits bool.splits prod.splits)
  moreover have "drawnLayers (displayResults rs t) = drawnLayers t" for rs t
    by (simp add: displayResults_def split: option.splits)
  ultimately have "drawnLayers (stateOf (analyzeTry resp s)) = drawnLayers s"
    by (simp add: analyzeTry_def Let_def split: option.splits list.splits response.splits)
  then show ?thesis
    by (cases "analyzeTry resp s") (simp_all add: analyzePoints_def)
qed

lemma analyzePoints_modal:
  "el_rec_modal (analyzePoints resp s) = el_rec_modal s"
  "el_rec_body (analyzePoints resp s) = el_rec_body s"
proof -
  have 1: "el_rec_modal (stateOf (updateAnalysisHeatmap rs t)) = el_rec_modal t
      \<and> el_rec_body (stateOf (updateAnalysisHeatmap rs t)) = el_rec_body t" for rs t
    by (simp add: updateAnalysisHeatmap_def Let_def split: option.splits bool.splits prod.splits)
  have 2: "el_rec_modal (displayResults rs t) = el_rec_modal t
      \<and> el_rec_body (displayResults rs t) = el_rec_body t" for rs t
    by (simp add: displayResults_def split: option.splits)
  have "el_rec_modal (stateOf (analyzeTry resp s)) = el_rec_modal s
      \<and> el_rec_body (stateOf (analyzeTry resp s)) = el_rec_body s"
    by (simp add: analyzeTry_def Let_def 1 2 split: option.splits list.splits response.splits)
  then show "el_rec_modal (analyzePoints resp s) = el_rec_modal s"
    "el_rec_body (analyzePoints resp s) = el_rec_body s"
    by (cases "analyzeTry resp s"; simp add: analyzePoints_def)+
qed

text \<open>Facts about the sample session.\<close>

lemma exampleLayers_fields:
  "drawnLayers exampleLayers = Some []"
  "heatLayer exampleLayers = Some \<lparr>h_circles = [], h_onMap = False\<rparr>"
  "el_recommendations exampleLayers = Some []"
  "el_layer_heatmap exampleLayers = Some False"
  "el_loading exampleLayers = Some False"
  "selectedPoints exampleLayers = []"
  "analysisResults exampleLayers = None"
  "alerts exampleLayers = []"
  "requests exampleLayers = []"
  "el_rec_modal exampleLayers = Some ''none''"
  "el_rec_body exampleLayers = Some None"
  by (simp_all add: exampleLayers_def examplePage_def initializeGIBSLayers_def initLayer_def
      L_tileLayer_def)

lemma examplePlaced_fields:
  "drawnLayers examplePlaced = Some
     [(41, \<lparr>m_lat = 8, m_lng = 76, structureType = ''house''\<rparr>),
      (42, \<lparr>m_lat = 9, m_lng = 77, structureType = ''hospital''\<rparr>)]"
  "heatLayer examplePlaced = Some \<lparr>h_circles = [], h_onMap = False\<rparr>"
  "el_recommendations examplePlaced = Some []"
  "el_layer_heatmap examplePlaced = Some False"
  "mapCreated examplePlaced"
  "el_rec_modal examplePlaced = Some ''none''"
  "el_rec_body examplePlaced = Some None"
  by (simp_all add: examplePlaced_def exampleLayers_fields exampleLayers_map)

lemma example_snapshot:
  "snapshot [(41, \<lparr>m_lat = 8, m_lng = 76, structureType = ''house''\<rparr>),
      (42, \<lparr>m_lat = 9, m_lng = 77, structureType = ''hospital''\<rparr>)]
   = [\<lparr>p_lat = 8, p_lon = 76, p_type = ''house''\<rparr>,
      \<lparr>p_lat = 9, p_lon = 77, p_type = ''hospital''\<rparr>]"
  by (simp add: snapshot_def)

lemma example_temps:
  "definedTemps exampleResults = [27, 29]"
  "definedTemps exampleNoTemp = [29]"
  by (simp_all add: exampleResults_def exampleNoTemp_def definedTemps_Cons meanTempOf_def)

lemma response_ok_200: "response_ok 200"
  by (simp add: response_ok_def)

lemma exampleAnalyzed_fields:
  "drawnLayers exampleAnalyzed = Some
     [(41, \<lparr>m_lat = 8, m_lng = 76, structureType = ''house''\<rparr>),
      (42, \<lparr>m_lat = 9, m_lng = 77, structureType = ''hospital''\<rparr>)]"
  "analysisResults exampleAnalyzed = Some exampleResults"
  "map_option length (el_recommendations exampleAnalyzed) = Some 3"
  "map_option (length \<circ> h_circles) (heatLayer exampleAnalyzed) = Some 2"
proof -
  show "drawnLayers exampleAnalyzed = Some
     [(41, \<lparr>m_lat = 8, m_lng = 76, structureType = ''house''\<rparr>),
      (42, \<lparr>m_lat = 9, m_lng = 77, structureType = ''hospital''\<rparr>)]"
    by (simp add: exampleAnalyzed_def analyzePoints_drawn examplePlaced_fields)
  have ne: "exampleResults \<noteq> []" by (simp add: exampleResults_def)
  have sn: "snapshot [(41, \<lparr>m_lat = 8, m_lng = 76, structureType = ''house''\<rparr>),
      (42, \<lparr>m_lat = 9, m_lng = 77, structureType = ''hospital''\<rparr>)] \<noteq> []"
    by (simp add: snapshot_def)
  have e: "j_error \<lparr>j_error = None, j_results = Some exampleResults\<rparr> = None
      \<or> j_error \<lparr>j_error = None, j_results = Some exampleResults\<rparr> = Some []" by simp
  have r: "j_results \<lparr>j_error = None, j_results = Some exampleResults\<rparr> = Some exampleResults"
    by simp
  show "analysisResults exampleAnalyzed = Some exampleResults"
    unfolding exampleAnalyzed_def exampleSuccess_def
    by (rule rendered_results [OF examplePlaced_fields(1) sn response_ok_200 ne e r
          examplePlaced_fields(3)])
  show "map_option length (el_recommendations exampleAnalyzed) = Some 3"
    using rendered_rows [OF examplePlaced_fields(1) sn response_ok_200 ne e r
          examplePlaced_fields(3), of "''OK''"]
    unfolding exampleAnalyzed_def exampleSuccess_def
    by (simp add: exampleResults_def)
  show "map_option (length \<circ> h_circles) (heatLayer exampleAnalyzed) = Some 2"
    using rendered_circles [OF examplePlaced_fields(1) sn response_ok_200 ne e r
          examplePlaced_fields(2), of "''OK''"]
      heatCircles_temps [of "Min (set (definedTemps exampleResults))"
          "Max (set (definedTemps exampleResults))" exampleResults, THEN arg_cong [where f = length]]
    unfolding exampleAnalyzed_def exampleSuccess_def
    by (auto simp: example_temps)
qed

lemma example_markers_snapshot:
  "snapshot [(41, \<lparr>m_lat = 8, m_lng = 76, structureType = ''house''\<rparr>),
      (42, \<lparr>m_lat = 9, m_lng = 77, structureType = ''hospital''\<rparr>)] \<noteq> []"
  by (simp add: snapshot_def)

lemma exampleNoTemp_body:
  "j_error \<lparr>j_error = None, j_results = Some exampleNoTemp\<rparr> = None
     \<or> j_error \<lparr>j_error = None, j_results = Some exampleNoTemp\<rparr> = Some []"
  "j_results \<lparr>j_error = None, j_results = Some exampleNoTemp\<rparr> = Some exampleNoTemp"
  "exampleNoTemp \<noteq> []"
  by (simp_all add: exampleNoTemp_def)

lemma exampleAnalyzed_present:
  obtains old h where "el_recommendations exampleAnalyzed = Some old"
    and "heatLayer exampleAnalyzed = Some h"
  using exampleAnalyzed_fields(3,4) by auto

lemma exampleAnalyzed_modal:
  "el_rec_modal exampleAnalyzed = Some ''none''" "el_rec_body exampleAnalyzed = Some None"
  by (simp_all add: exampleAnalyzed_def analyzePoints_modal examplePlaced_fields)

lemma exampleToggledOff_fields:
  "drawnLayers exampleToggledOff = drawnLayers examplePlaced"
  "heatLayer exampleToggledOff = Some \<lparr>h_circles = [], h_onMap = False\<rparr>"
  "mapCreated exampleToggledOff"
  "el_layer_heatmap exampleToggledOff = Some False"
  by (simp_all add: exampleToggledOff_def heatmapToggled_def examplePlaced_fields Let_def)

text \<open>
  The arithmetic of the rounding sample, and the doubles its temperatures are written
  as.
\<close>

lemma double_Num:
  assumes "toDouble x = r" and "- (2 ^ 1024) < r" and "r < 2 ^ 1024"
  shows "double x = Num r"
  using assms by (simp add: double_def Let_def)

lemma written_doubles:
  "toDouble 5.2 = 5854679515581645 / 1125899906842624"
  "toDouble 13.7 = 3856207180935987 / 281474976710656"
  by code_simp+

lemma exampleRounding_arith:
  "jsSub (5854679515581645 / 1125899906842624) (5854679515581645 / 1125899906842624) = Num 0"
  "jsSub 12 (5854679515581645 / 1125899906842624) = Num (7656119366529843 / 1125899906842624)"
  "jsSub (3856207180935987 / 281474976710656) (5854679515581645 / 1125899906842624) = Num (17 / 2)"
  "jsDiv (Num 0) (Num (17 / 2)) = Num 0"
  "jsDiv (Num (7656119366529843 / 1125899906842624)) (Num (17 / 2))
     = Num (7205759403792793 / 9007199254740992)"
  "jsDiv (Num (17 / 2)) (Num (17 / 2)) = Num 1"
proof -
  have 1: "toDouble (12 - 5854679515581645 / 1125899906842624)
      = 7656119366529843 / 1125899906842624"
    by code_simp
  have 2: "toDouble (3856207180935987 / 281474976710656 - 5854679515581645 / 1125899906842624)
      = 17 / 2"
    by code_simp
  have 3: "toDouble (7656119366529843 / 1125899906842624 / (17 / 2))
      = 7205759403792793 / 9007199254740992"
    by code_simp
  have 4: "toDouble 1 = 1" by code_simp
  have 0: "toDouble 0 = 0" by (simp add: toDouble_def)
  show "jsSub (5854679515581645 / 1125899906842624) (5854679515581645 / 1125899906842624) = Num 0"
    unfolding jsSub_def by (rule double_Num) (simp_all add: 0)
  show "jsSub 12 (5854679515581645 / 1125899906842624) = Num (7656119366529843 / 1125899906842624)"
    unfolding jsSub_def by (rule double_Num [OF 1]) simp_all
  show "jsSub (3856207180935987 / 281474976710656) (5854679515581645 / 1125899906842624) = Num (17 / 2)"
    unfolding jsSub_def by (rule double_Num [OF 2]) simp_all
  have "double (0 / (17 / 2)) = Num 0"
    by (rule double_Num) (simp_all add: 0)
  then show "jsDiv (Num 0) (Num (17 / 2)) = Num 0" by simp
  have "double (7656119366529843 / 1125899906842624 / (17 / 2))
      = Num (7205759403792793 / 9007199254740992)"
    by (rule double_Num [OF 3]) simp_all
  then show "jsDiv (Num (7656119366529843 / 1125899906842624)) (Num (17 / 2))
     = Num (7205759403792793 / 9007199254740992)"
    by (simp del: divide_divide_eq_left divide_divide_eq_right times_divide_eq_left times_divide_eq_right)
  have "double (17 / 2 / (17 / 2)) = Num 1"
    by (rule double_Num) (simp_all add: 4)
  then show "jsDiv (Num (17 / 2)) (Num (17 / 2)) = Num 1" by simp
qed


lemma exampleRounding_temps:
  "definedTemps exampleRounding
     = [5854679515581645 / 1125899906842624, 12, 3856207180935987 / 281474976710656]"
  by (simp add: exampleRounding_def definedTemps_Cons meanTempOf_def)

lemma exampleRounding_buckets:
  "bucketOf (spec_normalized
      [5854679515581645 / 1125899906842624, 12, 3856207180935987 / 281474976710656]
      (5854679515581645 / 1125899906842624)) = 0"
  "bucketOf (spec_normalized
      [5854679515581645 / 1125899906842624, 12, 3856207180935987 / 281474976710656] 12) = 3"
  "bucketOf (spec_normalized
      [5854679515581645 / 1125899906842624, 12, 3856207180935987 / 281474976710656]
      (3856207180935987 / 281474976710656)) = 4"
proof -
  have mx: "Max (set [5854679515581645 / 1125899906842624, 12,
        3856207180935987 / 281474976710656 :: real]) = 3856207180935987 / 281474976710656"
    by simp
  have mn: "Min (set [5854679515581645 / 1125899906842624, 12,
        3856207180935987 / 281474976710656 :: real]) = 5854679515581645 / 1125899906842624"
    by simp
  have ne: "(3856207180935987 / 281474976710656 :: real) \<noteq> 5854679515581645 / 1125899906842624"
    by simp
  show "bucketOf (spec_normalized
      [5854679515581645 / 1125899906842624, 12, 3856207180935987 / 281474976710656]
      (5854679515581645 / 1125899906842624)) = 0"
    unfolding spec_normalized_def mx mn
    by (simp only: ne if_False exampleRounding_arith) (simp add: bucketOf_def spec_bucket_def)
  show "bucketOf (spec_normalized
      [5854679515581645 / 1125899906842624, 12, 3856207180935987 / 281474976710656] 12) = 3"
    unfolding spec_normalized_def mx mn
    by (simp only: ne if_False exampleRounding_arith) (simp add: bucketOf_def spec_bucket_def)
  show "bucketOf (spec_normalized
      [5854679515581645 / 1125899906842624, 12, 3856207180935987 / 281474976710656]
      (3856207180935987 / 281474976710656)) = 4"
    unfolding spec_normalized_def mx mn
    by (simp only: ne if_False exampleRounding_arith) (simp add: bucketOf_def spec_bucket_def)
qed

text \<open>
  The script compares with the literals 0.25, 0.5, 0.65 and 0.8, which denote doubles;
  \<open>heatColor\<close> compares with the exact values. The first two are doubles. The doubles
  from one half up to one are the multiples of \<open>1 / 2 ^ 53\<close>, and for them the exact
  value and the literal's double decide alike; smaller doubles lie below both, larger
  ones above both.
\<close>

lemma literal_boundaries:
  fixes m :: int
  shows "(real_of_int m / 2 ^ 53 < 0.65) = (real_of_int m / 2 ^ 53 < toDouble 0.65)"
    and "(real_of_int m / 2 ^ 53 < 0.8) = (real_of_int m / 2 ^ 53 < toDouble 0.8)"
    and "toDouble 0.25 = 0.25" and "toDouble 0.5 = 0.5"
proof -
  have a: "toDouble 0.65 = 5854679515581645 / 2 ^ 53" by code_simp
  have b: "toDouble 0.8 = 7205759403792794 / 2 ^ 53" by code_simp
  show "(real_of_int m / 2 ^ 53 < 0.65) = (real_of_int m / 2 ^ 53 < toDouble 0.65)"
    unfolding a by (simp add: field_simps) linarith
  show "(real_of_int m / 2 ^ 53 < 0.8) = (real_of_int m / 2 ^ 53 < toDouble 0.8)"
    unfolding b by (simp add: field_simps) linarith
  show "toDouble 0.25 = 0.25" by code_simp
  show "toDouble 0.5 = 0.5" by code_simp
qed

section \<open>Analysis and rendering: the claims\<close>

subsection \<open>Removing and clearing placements (C2)\<close>

text \<open>
  In the sample session two structures were analysed. Removing the first one afterwards
  changes the layer group and nothing else: the list still holds its heading and two
  rows, the overlay its two circles, the stored result array is the old one and the
  detail view still opens on it. After \<^verbatim>\<open>clearAllMarkers\<close> the detail view still
  opens on the old array as well.
\<close>

theorem stale_results_counterexample:
  "map_option (map fst) (drawnLayers (stateOf (removeMarker 41 exampleAnalyzed))) = Some [42]
   \<and> map_option length (el_recommendations (stateOf (removeMarker 41 exampleAnalyzed))) = Some 3
   \<and> map_option (length \<circ> h_circles) (heatLayer (stateOf (removeMarker 41 exampleAnalyzed)))
       = Some 2
   \<and> analysisResults (stateOf (removeMarker 41 exampleAnalyzed)) = Some exampleResults
   \<and> map_option (map_option d_score)
       (el_rec_body (showDetailedAnalysis 0 (stateOf (removeMarker 41 exampleAnalyzed))))
       = Some (Some 80)
   \<and> map_option (map_option d_score)
       (el_rec_body (showDetailedAnalysis 0 (stateOf (clearAllMarkers exampleAnalyzed))))
       = Some (Some 80)"
proof -
  have r: "removeMarker 41 exampleAnalyzed = Done (exampleAnalyzed\<lparr>drawnLayers :=
      Some [(42, \<lparr>m_lat = 9, m_lng = 77, structureType = ''hospital''\<rparr>)]\<rparr>)"
    by (simp add: removeMarker_def exampleAnalyzed_fields)
  have c: "analysisResults (stateOf (clearAllMarkers exampleAnalyzed)) = Some exampleResults"
    "el_rec_modal (stateOf (clearAllMarkers exampleAnalyzed)) = Some ''none''"
    "el_rec_body (stateOf (clearAllMarkers exampleAnalyzed)) = Some None"
    by (simp_all add: clearAllMarkers_def exampleAnalyzed_fields exampleAnalyzed_modal)
  have z: "exampleResults ! 0 = \<lparr>r_lat = 8, r_lon = 76, r_score = 80, r_ndvi = 0.3,
       r_population = 2000,
       r_power_summary = Some \<lparr>mean_temp = Some 27, mean_precip = Some 3, n_days = Some 31\<rparr>\<rparr>"
    "length exampleResults = 2"
    by (simp_all add: exampleResults_def)
  have 1: "map_option (map fst) (drawnLayers (stateOf (removeMarker 41 exampleAnalyzed))) = Some [42]"
    by (simp add: r)
  have 2: "map_option length (el_recommendations (stateOf (removeMarker 41 exampleAnalyzed))) = Some 3"
    by (simp add: r exampleAnalyzed_fields)
  have 3: "map_option (length \<circ> h_circles) (heatLayer (stateOf (removeMarker 41 exampleAnalyzed)))
       = Some 2"
    by (simp add: r exampleAnalyzed_fields)
  have 4: "analysisResults (stateOf (removeMarker 41 exampleAnalyzed)) = Some exampleResults"
    by (simp add: r exampleAnalyzed_fields)
  have 5: "map_option (map_option d_score)
       (el_rec_body (showDetailedAnalysis 0 (stateOf (removeMarker 41 exampleAnalyzed))))
       = Some (Some 80)"
    by (simp add: r showDetailedAnalysis_def exampleAnalyzed_fields exampleAnalyzed_modal z Let_def)
  have 6: "map_option (map_option d_score)
       (el_rec_body (showDetailedAnalysis 0 (stateOf (clearAllMarkers exampleAnalyzed))))
       = Some (Some 80)"
    by (simp add: showDetailedAnalysis_def c z Let_def)
  show ?thesis by (intro conjI 1 2 3 4 5 6)
qed

text \<open>
  C2, as the code has it. Removing one structure changes only the set of placed
  markers: the list rows, the overlay circles, the stored result array and the
  placement snapshot of the earlier analysis stay exactly as they were, until the next
  analysis replaces them. Clearing all structures empties the list and the overlay
  (where the list container and the heat layer group exist), the snapshot and the set of
  placed markers.
\<close>

theorem placement_change_effects:
  shows "el_recommendations (stateOf (removeMarker layerId s)) = el_recommendations s
    \<and> heatLayer (stateOf (removeMarker layerId s)) = heatLayer s
    \<and> analysisResults (stateOf (removeMarker layerId s)) = analysisResults s
    \<and> selectedPoints (stateOf (removeMarker layerId s)) = selectedPoints s
    \<and> (drawnLayers s = Some ms \<longrightarrow>
         el_recommendations (stateOf (clearAllMarkers s))
           = map_option (\<lambda>old. []) (el_recommendations s)
       \<and> map_option h_circles (heatLayer (stateOf (clearAllMarkers s)))
           = map_option (\<lambda>old. []) (heatLayer s)
       \<and> selectedPoints (stateOf (clearAllMarkers s)) = []
       \<and> drawnLayers (stateOf (clearAllMarkers s)) = Some [])"
  by (auto simp: removeMarker_def clearAllMarkers_def option.map_comp comp_def
      split: option.splits)

theorem placement_change_effects_witness:
  "map_option length (el_recommendations (stateOf (removeMarker 41 exampleAnalyzed))) = Some 3
   \<and> analysisResults (stateOf (removeMarker 41 exampleAnalyzed)) = Some exampleResults
   \<and> map_option length (el_recommendations (stateOf (clearAllMarkers exampleAnalyzed))) = Some 0
   \<and> map_option h_circles (heatLayer (stateOf (clearAllMarkers exampleAnalyzed))) = Some []
   \<and> drawnLayers (stateOf (clearAllMarkers exampleAnalyzed)) = Some []"
proof -
  obtain old h where o: "el_recommendations exampleAnalyzed = Some old"
    and h: "heatLayer exampleAnalyzed = Some h"
    by (rule exampleAnalyzed_present)
  from placement_change_effects [of 41 exampleAnalyzed]
  show ?thesis
    using exampleAnalyzed_fields o h by simp
qed

subsection \<open>Normalisation and colour buckets (C4)\<close>

text \<open>
  C4. With the heat layer group in place: when at least one result has a defined mean
  temperature, the overlay holds one circle per defined temperature \<open>t\<close>, in order,
  and its colour is the colour of the bucket of \<open>(t - min) / (max - min)\<close>, computed
  in the double arithmetic of the script, or of \<open>0.5\<close> when \<open>max = min\<close>, minimum
  and maximum being taken over the defined temperatures; the buckets are the five of the
  specification, with boundaries at 0.25, 0.5, 0.65 and 0.8 that belong to the upper
  bucket, so that 0 and 0.249 fall in bucket 0, 0.25 and 0.499 in bucket 1, 0.5 and 0.649
  in bucket 2, 0.65 and 0.799 in bucket 3, 0.8 and 1 in bucket 4, and the five colours
  differ. When no result has a defined temperature, \<^verbatim>\<open>updateAnalysisHeatmap\<close>
  returns without throwing, having emptied the overlay and drawn nothing, and leaves the
  heatmap checkbox alone.
\<close>

theorem heatmap_normalization_and_buckets:
  assumes "heatLayer s = Some h"
  shows "(definedTemps rs \<noteq> [] \<longrightarrow>
      (\<exists>circles.
          map_option h_circles (heatLayer (stateOf (updateAnalysisHeatmap rs s))) = Some circles
        \<and> list_all2 (\<lambda>c t. c_popupTemp c = t
              \<and> c_fillColor c = bucketColors ! bucketOf (spec_normalized (definedTemps rs) t))
            circles (definedTemps rs)))
    \<and> (definedTemps rs = [] \<longrightarrow>
      (\<exists>s'. updateAnalysisHeatmap rs s = Done s'
        \<and> heatLayer s' = Some (h\<lparr>h_circles := []\<rparr>)
        \<and> el_layer_heatmap s' = el_layer_heatmap s))
    \<and> map (\<lambda>n. heatColor (Num n)) [0, 0.249, 0.25, 0.499, 0.5, 0.649, 0.65, 0.799, 0.8, 1]
        = map (\<lambda>i. bucketColors ! i) [0, 0, 1, 1, 2, 2, 3, 3, 4, 4]
    \<and> distinct bucketColors
    \<and> (\<forall>n. heatColor (Num n) = bucketColors ! spec_bucket n)"
proof (intro conjI impI allI)
  assume ne: "definedTemps rs \<noteq> []"
  let ?lo = "Min (set (definedTemps rs))" and ?hi = "Max (set (definedTemps rs))"
  have 1: "map_option h_circles (heatLayer (stateOf (updateAnalysisHeatmap rs s)))
      = Some (heatCircles ?lo ?hi rs)"
    using heat_circles_after [OF assms, of rs] ne by simp
  have 2: "list_all2 (\<lambda>c t. c_popupTemp c = t
              \<and> c_fillColor c = bucketColors ! bucketOf (spec_normalized (definedTemps rs) t))
            (heatCircles ?lo ?hi rs) (definedTemps rs)"
    using heatCircles_all2 [of ?lo ?hi rs]
    by (rule list.rel_mono_strong) (simp add: normalized_spec heatColor_bucket)
  show "\<exists>circles.
          map_option h_circles (heatLayer (stateOf (updateAnalysisHeatmap rs s))) = Some circles
        \<and> list_all2 (\<lambda>c t. c_popupTemp c = t
              \<and> c_fillColor c = bucketColors ! bucketOf (spec_normalized (definedTemps rs) t))
            circles (definedTemps rs)"
    by (rule exI [of _ "heatCircles ?lo ?hi rs"]) (intro conjI 1 2)
next
  assume "definedTemps rs = []"
  then show "\<exists>s'. updateAnalysisHeatmap rs s = Done s'
        \<and> heatLayer s' = Some (h\<lparr>h_circles := []\<rparr>)
        \<and> el_layer_heatmap s' = el_layer_heatmap s"
    using assms by (cases "rs = []") (simp_all add: updateAnalysisHeatmap_def scanTemps_MinMax)
next
  show "map (\<lambda>n. heatColor (Num n)) [0, 0.249, 0.25, 0.499, 0.5, 0.649, 0.65, 0.799, 0.8, 1]
        = map (\<lambda>i. bucketColors ! i) [0, 0, 1, 1, 2, 2, 3, 3, 4, 4]"
    by (simp add: heatColor_def bucketColors_def)
next
  show "distinct bucketColors" by (simp add: bucketColors_def)
next
  fix n show "heatColor (Num n) = bucketColors ! spec_bucket n"
    by (simp add: heatColor_bucket bucketOf_def)
qed

theorem heatmap_normalization_and_buckets_witness:
  "map_option (map c_fillColor \<circ> h_circles)
     (heatLayer (stateOf (updateAnalysisHeatmap exampleRounding examplePlaced)))
     = Some [''#3b82f6'', ''#f97316'', ''#ef4444'']
   \<and> (\<exists>s'. updateAnalysisHeatmap [] examplePlaced = Done s'
        \<and> heatLayer s' = Some \<lparr>h_circles = [], h_onMap = False\<rparr>)"
proof -
  note t = heatmap_normalization_and_buckets [OF examplePlaced_fields(2)]
  have ne: "definedTemps exampleRounding \<noteq> []"
    by (simp only: exampleRounding_temps) simp
  from t [of exampleRounding] ne obtain circles where
    c: "map_option h_circles (heatLayer (stateOf (updateAnalysisHeatmap exampleRounding examplePlaced)))
        = Some circles"
    and l: "list_all2 (\<lambda>c t. c_popupTemp c = t
              \<and> c_fillColor c = bucketColors !
                  bucketOf (spec_normalized (definedTemps exampleRounding) t))
            circles (definedTemps exampleRounding)"
    by blast
  from l obtain x y z where xyz: "circles = [x, y, z]"
    and cx: "c_fillColor x = bucketColors ! bucketOf (spec_normalized
      [5854679515581645 / 1125899906842624, 12, 3856207180935987 / 281474976710656]
      (5854679515581645 / 1125899906842624))"
    and cy: "c_fillColor y = bucketColors ! bucketOf (spec_normalized
      [5854679515581645 / 1125899906842624, 12, 3856207180935987 / 281474976710656] 12)"
    and cz: "c_fillColor z = bucketColors ! bucketOf (spec_normalized
      [5854679515581645 / 1125899906842624, 12, 3856207180935987 / 281474976710656]
      (3856207180935987 / 281474976710656))"
    unfolding exampleRounding_temps
    by (auto simp only: list_all2_Cons2 list_all2_Nil2)
  have m: "map c_fillColor circles = [''#3b82f6'', ''#f97316'', ''#ef4444'']"
    unfolding xyz by (simp add: cx cy cz exampleRounding_buckets bucketColors_def)
  from t [of "[]"] have e: "\<exists>s'. updateAnalysisHeatmap [] examplePlaced = Done s'
        \<and> heatLayer s' = Some \<lparr>h_circles = [], h_onMap = False\<rparr>"
    by auto
  show ?thesis using c m e by (auto simp: option.map_comp [symmetric])
qed

subsection \<open>Rows and markers of a rendering (C5)\<close>

text \<open>
  Two structures are placed and the response has two results, the first without a
  temperature: the rendering draws a single overlay circle, not two.
\<close>

theorem render_markers_counterexample:
  "map_option (length \<circ> h_circles)
     (heatLayer (analyzePoints
        (Http 200 ''OK'' (Some \<lparr>j_error = None, j_results = Some exampleNoTemp\<rparr>)) examplePlaced))
     = Some 1
   \<and> length exampleNoTemp = 2
   \<and> map_option (length \<circ> snapshot) (drawnLayers examplePlaced) = Some 2"
proof -
  have c: "map_option h_circles
     (heatLayer (analyzePoints
        (Http 200 ''OK'' (Some \<lparr>j_error = None, j_results = Some exampleNoTemp\<rparr>)) examplePlaced))
     = Some (heatCircles 29 29 exampleNoTemp)"
    using rendered_circles [OF examplePlaced_fields(1) example_markers_snapshot response_ok_200
      exampleNoTemp_body(3) exampleNoTemp_body(1) exampleNoTemp_body(2) examplePlaced_fields(2),
      of "''OK''"]
    by (simp add: example_temps)
  have "length (map c_popupTemp (heatCircles 29 29 exampleNoTemp)) = 1"
    by (simp only: heatCircles_temps example_temps) simp
  then have l: "length (heatCircles 29 29 exampleNoTemp) = 1" by simp
  have 1: "map_option (length \<circ> h_circles)
     (heatLayer (analyzePoints
        (Http 200 ''OK'' (Some \<lparr>j_error = None, j_results = Some exampleNoTemp\<rparr>)) examplePlaced))
     = Some 1"
    using c l by (auto simp: option.map_comp [symmetric])
  have 2: "length exampleNoTemp = 2" by (simp add: exampleNoTemp_def)
  have 3: "map_option (length \<circ> snapshot) (drawnLayers examplePlaced) = Some 2"
    by (simp add: examplePlaced_fields snapshot_def)
  show ?thesis by (intro conjI 1 2 3)
qed

text \<open>
  C5, as the code has it. For a non-empty placement snapshot \<open>P\<close> and a result array
  \<open>R\<close> of the same length, with the list container and the heat layer group in place,
  a successful analysis leaves exactly \<open>|R|\<close> list rows after the heading, row \<open>i\<close>
  titled with the type of the \<open>i\<close>-th placement, numbered \<open>i + 1\<close> and showing the
  \<open>i\<close>-th result; and it leaves, in place of all earlier circles, exactly one overlay
  circle for each result that has a defined mean temperature, at that result's
  position and in result order, hence \<open>|R|\<close> circles when every result has one.
\<close>

theorem render_rows_and_markers:
  assumes "drawnLayers s = Some ms" and "snapshot ms = P" and "P \<noteq> []"
    and "length R = length P" and "response_ok st"
    and "el_recommendations s = Some old" and "heatLayer s = Some h"
  shows "\<exists>rows markers.
      el_recommendations (analyzePoints (Http st txt (Some \<lparr>j_error = None, j_results = Some R\<rparr>)) s)
        = Some (Heading # map Rec rows)
    \<and> length rows = length R
    \<and> (\<forall>i<length R. row_title (rows ! i) = capitalize (p_type (P ! i))
          \<and> row_number (rows ! i) = i + 1
          \<and> row_score (rows ! i) = r_score (R ! i)
          \<and> row_lat (rows ! i) = r_lat (R ! i) \<and> row_lon (rows ! i) = r_lon (R ! i))
    \<and> map_option h_circles
        (heatLayer (analyzePoints (Http st txt (Some \<lparr>j_error = None, j_results = Some R\<rparr>)) s))
        = Some markers
    \<and> map (\<lambda>c. (c_lat c, c_lon c)) markers
        = map (\<lambda>r. (r_lat r, r_lon r)) (filter (\<lambda>r. meanTempOf r \<noteq> None) R)
    \<and> ((\<forall>r\<in>set R. meanTempOf r \<noteq> None) \<longrightarrow> length markers = length R)"
proof -
  let ?resp = "Http st txt (Some \<lparr>j_error = None, j_results = Some R\<rparr>)"
  let ?rows = "map (\<lambda>ir. renderRow P ir) (enumerate 0 R)"
  let ?markers = "if definedTemps R = [] then []
           else heatCircles (Min (set (definedTemps R))) (Max (set (definedTemps R))) R"
  have ne: "R \<noteq> []" using assms(3,4) by auto
  have sn: "snapshot ms \<noteq> []" using assms(2,3) by simp
  have e: "j_error \<lparr>j_error = None, j_results = Some R\<rparr> = None
      \<or> j_error \<lparr>j_error = None, j_results = Some R\<rparr> = Some []" by simp
  have r: "j_results \<lparr>j_error = None, j_results = Some R\<rparr> = Some R" by simp
  have 1: "el_recommendations (analyzePoints ?resp s) = Some (Heading # map Rec ?rows)"
    using rendered_rows [OF assms(1) sn assms(5) ne e r assms(6)]
    by (simp add: assms(2) comp_def)
  have 2: "length ?rows = length R" by simp
  have 3: "\<forall>i<length R. row_title (?rows ! i) = capitalize (p_type (P ! i))
          \<and> row_number (?rows ! i) = i + 1
          \<and> row_score (?rows ! i) = r_score (R ! i)
          \<and> row_lat (?rows ! i) = r_lat (R ! i) \<and> row_lon (?rows ! i) = r_lon (R ! i)"
    using assms(4) by (simp add: renderRow_nth structureTypeAt_def)
  have 4: "map_option h_circles (heatLayer (analyzePoints ?resp s)) = Some ?markers"
    using rendered_circles [OF assms(1) sn assms(5) ne e r assms(7)]
    by simp
  have 5: "map (\<lambda>c. (c_lat c, c_lon c)) ?markers
        = map (\<lambda>r. (r_lat r, r_lon r)) (filter (\<lambda>r. meanTempOf r \<noteq> None) R)"
    using no_defined_temps [of R] by (simp add: heatCircles_places)
  have 6: "(\<forall>r\<in>set R. meanTempOf r \<noteq> None) \<longrightarrow> length ?markers = length R"
  proof
    assume a: "\<forall>r\<in>set R. meanTempOf r \<noteq> None"
    then have f: "filter (\<lambda>r. meanTempOf r \<noteq> None) R = R" by simp
    have "length ?markers = length (map (\<lambda>c. (c_lat c, c_lon c)) ?markers)"
      by (simp only: length_map)
    also have "\<dots> = length (map (\<lambda>r. (r_lat r, r_lon r)) (filter (\<lambda>r. meanTempOf r \<noteq> None) R))"
      by (simp only: 5)
    also have "\<dots> = length R"
      by (simp only: f length_map)
    finally show "length ?markers = length R" .
  qed
  show ?thesis
    apply (rule exI [of _ ?rows])
    apply (rule exI [of _ ?markers])
    apply (intro conjI)
         apply (rule 1)
        apply (rule 2)
       apply (rule 3)
      apply (rule 4)
     apply (rule 5)
    apply (rule 6)
    done
qed

theorem render_rows_and_markers_witness:
  "\<exists>rows markers.
      el_recommendations exampleAnalyzed = Some (Heading # map Rec rows)
    \<and> map row_title rows = [''House'', ''Hospital'']
    \<and> map row_number rows = [1, 2]
    \<and> map row_score rows = [80, 45]
    \<and> map_option h_circles (heatLayer exampleAnalyzed) = Some markers
    \<and> map (\<lambda>c. (c_lat c, c_lon c)) markers = [(8, 76), (9, 77)]"
proof -
  have P: "snapshot [(41, \<lparr>m_lat = 8, m_lng = 76, structureType = ''house''\<rparr>),
      (42, \<lparr>m_lat = 9, m_lng = 77, structureType = ''hospital''\<rparr>)]
    = [\<lparr>p_lat = 8, p_lon = 76, p_type = ''house''\<rparr>,
       \<lparr>p_lat = 9, p_lon = 77, p_type = ''hospital''\<rparr>]"
    by (simp add: snapshot_def)
  have len: "length exampleResults
      = length [\<lparr>p_lat = 8, p_lon = 76, p_type = ''house''\<rparr>,
       \<lparr>p_lat = 9, p_lon = 77, p_type = ''hospital''\<rparr>]"
    by (simp add: exampleResults_def)
  have lenR: "length exampleResults = 2" by (simp add: exampleResults_def)
  have ne: "[\<lparr>p_lat = 8, p_lon = 76, p_type = ''house''\<rparr>,
       \<lparr>p_lat = 9, p_lon = 77, p_type = ''hospital''\<rparr>] \<noteq> []" by simp
  note t = render_rows_and_markers [OF examplePlaced_fields(1) P ne len response_ok_200
      examplePlaced_fields(3) examplePlaced_fields(2), of "''OK''",
      folded exampleSuccess_def exampleAnalyzed_def]
  then obtain rows markers where
    a: "el_recommendations exampleAnalyzed = Some (Heading # map Rec rows)"
    and b: "length rows = length exampleResults"
    and c: "\<forall>i<length exampleResults. row_title (rows ! i)
          = capitalize (p_type ([\<lparr>p_lat = 8, p_lon = 76, p_type = ''house''\<rparr>,
               \<lparr>p_lat = 9, p_lon = 77, p_type = ''hospital''\<rparr>] ! i))
          \<and> row_number (rows ! i) = i + 1
          \<and> row_score (rows ! i) = r_score (exampleResults ! i)
          \<and> row_lat (rows ! i) = r_lat (exampleResults ! i)
          \<and> row_lon (rows ! i) = r_lon (exampleResults ! i)"
    and d: "map_option h_circles (heatLayer exampleAnalyzed) = Some markers"
    and e: "map (\<lambda>c. (c_lat c, c_lon c)) markers
        = map (\<lambda>r. (r_lat r, r_lon r)) (filter (\<lambda>r. meanTempOf r \<noteq> None) exampleResults)"
    by (elim exE conjE)
  from b lenR obtain x y where rows: "rows = [x, y]"
    by (metis length_0_conv length_Suc_conv numeral_2_eq_2)
  from c [rule_format, of 0] c [rule_format, of 1]
  have v: "map row_title rows = [''House'', ''Hospital'']"
    "map row_number rows = [1, 2]" "map row_score rows = [80, 45]"
    by (simp_all add: rows toUpperCase_def exampleResults_def)
  from e have m: "map (\<lambda>c. (c_lat c, c_lon c)) markers = [(8, 76), (9, 77)]"
    by (simp add: exampleResults_def meanTempOf_def)
  show ?thesis
    by (rule exI [of _ rows], rule exI [of _ markers]) (intro conjI a v d m)
qed

subsection \<open>A failed scoring call (C6)\<close>

text \<open>
  C6. A scoring response is a failure when its status is outside 200 to 299 or when its
  body is an error body, that is, carries an \<^verbatim>\<open>error\<close> string and no results, as the
  service sends it (a non-empty \<^verbatim>\<open>error\<close> string counts whatever else the body
  holds). For every such response the run shows one more alert, leaves the list rows,
  the overlay circles and the stored result array as they were, and ends with the loading
  indicator hidden.
\<close>

theorem failed_response_keeps_render:
  assumes "\<not> response_ok status \<or>
      (\<exists>data e. body = Some data \<and> j_error data = Some e
         \<and> (e \<noteq> [] \<or> j_results data = None \<or> j_results data = Some []))"
  shows "(\<exists>msg. alerts (analyzePoints (Http status statusText body) s) = alerts s @ [msg])
    \<and> el_recommendations (analyzePoints (Http status statusText body) s) = el_recommendations s
    \<and> heatLayer (analyzePoints (Http status statusText body) s) = heatLayer s
    \<and> analysisResults (analyzePoints (Http status statusText body) s) = analysisResults s
    \<and> el_loading (analyzePoints (Http status statusText body) s)
        = map_option (\<lambda>old. False) (el_loading s)"
  using assms
  by (auto simp: analyzePoints_def analyzeTry_def Let_def option.map_comp comp_def
      split: option.splits list.splits)

theorem failed_response_keeps_render_witness:
  "(\<exists>msg. alerts (analyzePoints (Http 500 ''Internal Server Error'' None) exampleAnalyzed)
       = alerts exampleAnalyzed @ [msg])
   \<and> map_option length
       (el_recommendations (analyzePoints (Http 500 ''Internal Server Error'' None) exampleAnalyzed))
       = Some 3
   \<and> map_option (length \<circ> h_circles)
       (heatLayer (analyzePoints (Http 500 ''Internal Server Error'' None) exampleAnalyzed))
       = Some 2
   \<and> analysisResults (analyzePoints (Http 500 ''Internal Server Error'' None) exampleAnalyzed)
       = Some exampleResults
   \<and> el_loading (analyzePoints (Http 500 ''Internal Server Error'' None) exampleAnalyzed)
       \<noteq> Some True"
proof -
  have "\<not> response_ok 500 \<or>
      (\<exists>data e. (None :: jsonBody option) = Some data \<and> j_error data = Some e
         \<and> (e \<noteq> [] \<or> j_results data = None \<or> j_results data = Some []))"
    by (simp add: response_ok_def)
  from failed_response_keeps_render [OF this, of "''Internal Server Error''" exampleAnalyzed]
  show ?thesis
    by (cases "el_loading exampleAnalyzed") (simp_all add: exampleAnalyzed_fields)
qed

subsection \<open>Analysing with nothing placed (C7)\<close>

text \<open>
  C7. When the layer group holds no structure to analyse, \<^verbatim>\<open>analyzePoints\<close> sends
  no request, whatever the server would have answered, shows the alert that asks for a
  structure to be placed, and leaves the list rows, the overlay circles and the stored
  result array unchanged.
\<close>

theorem analyze_without_placements:
  assumes "drawnLayers s = Some ms" and "snapshot ms = []"
  shows "requests (analyzePoints resp s) = requests s
    \<and> alerts (analyzePoints resp s) =
        alerts s @ [''Please place at least one structure on the map before analyzing.'']
    \<and> el_recommendations (analyzePoints resp s) = el_recommendations s
    \<and> heatLayer (analyzePoints resp s) = heatLayer s
    \<and> analysisResults (analyzePoints resp s) = analysisResults s"
  using assms by (simp add: analyzePoints_def analyzeTry_def)

theorem analyze_without_placements_witness:
  "requests (analyzePoints exampleSuccess exampleLayers) = []
   \<and> alerts (analyzePoints exampleSuccess exampleLayers)
       = [''Please place at least one structure on the map before analyzing.'']
   \<and> el_recommendations (analyzePoints exampleSuccess exampleLayers) = Some []
   \<and> analysisResults (analyzePoints exampleSuccess exampleLayers) = None"
proof -
  have "snapshot [] = []" by (simp add: snapshot_def)
  from analyze_without_placements [OF exampleLayers_fields(1) this, of exampleSuccess]
  show ?thesis by (simp add: exampleLayers_fields)
qed

subsection \<open>The heatmap is switched on by a rendering (C9)\<close>

text \<open>
  C9. After a successful analysis in which at least one result has a defined mean
  temperature, an unchecked heatmap checkbox has been checked and the heat layer group
  has been added to the map, whatever the user had last chosen.
\<close>

theorem analysis_forces_heatmap_visible:
  assumes "drawnLayers s = Some ms" and "snapshot ms \<noteq> []"
    and "response_ok st" and "definedTemps rs \<noteq> []"
    and "heatLayer s = Some h" and "mapCreated s" and "el_layer_heatmap s = Some False"
  shows "el_layer_heatmap
        (analyzePoints (Http st txt (Some \<lparr>j_error = None, j_results = Some rs\<rparr>)) s) = Some True
    \<and> map_option h_onMap (heatLayer
        (analyzePoints (Http st txt (Some \<lparr>j_error = None, j_results = Some rs\<rparr>)) s)) = Some True"
proof -
  have ne: "rs \<noteq> []" using assms(4) by auto
  let ?s2 = "displayResults rs (requested ms s)"
  have "updateAnalysisHeatmap rs ?s2 =
      Done (?s2\<lparr>el_layer_heatmap := Some True,
        heatLayer := Some (h\<lparr>h_circles := heatCircles (Min (set (definedTemps rs)))
                                (Max (set (definedTemps rs))) rs,
                            h_onMap := True\<rparr>),
        console := console ?s2 @ [Log ''Heatmap updated'']\<rparr>)"
    using assms ne
    by (simp add: updateAnalysisHeatmap_def scanTemps_MinMax displayResults_frame requested_fields)
  then show ?thesis
    using assms ne by (simp add: analyzePoints_stateOf analyzeTry_success)
qed

theorem analysis_forces_heatmap_visible_witness:
  "el_layer_heatmap (stateOf (heatmapToggled True examplePlaced)) = Some True
   \<and> el_layer_heatmap exampleToggledOff = Some False
   \<and> map_option h_onMap (heatLayer exampleToggledOff) = Some False
   \<and> el_layer_heatmap (analyzePoints exampleSuccess exampleToggledOff) = Some True
   \<and> map_option h_onMap (heatLayer (analyzePoints exampleSuccess exampleToggledOff)) = Some True"
proof -
  have d: "definedTemps exampleResults \<noteq> []" by (simp add: example_temps)
  have dl: "drawnLayers exampleToggledOff = Some
     [(41, \<lparr>m_lat = 8, m_lng = 76, structureType = ''house''\<rparr>),
      (42, \<lparr>m_lat = 9, m_lng = 77, structureType = ''hospital''\<rparr>)]"
    by (simp add: exampleToggledOff_fields examplePlaced_fields)
  have t: "el_layer_heatmap (stateOf (heatmapToggled True examplePlaced)) = Some True"
    by (simp add: heatmapToggled_def examplePlaced_fields Let_def)
  from analysis_forces_heatmap_visible [OF dl example_markers_snapshot
      response_ok_200 d exampleToggledOff_fields(2) exampleToggledOff_fields(3)
      exampleToggledOff_fields(4), of "''OK''", folded exampleSuccess_def]
  show ?thesis using t by (simp add: exampleToggledOff_fields)
qed

subsection \<open>More results than placements (C10)\<close>

text \<open>
  C10. Rendering a result array is total, and for every index that has a result but no
  placement in the snapshot the row is titled \<^verbatim>\<open>Unknown\<close>; the detail view of such an
  index shows the structure type \<^verbatim>\<open>Unknown\<close>; and opening the detail view at an index
  with no result in the current array, or with no array stored, changes nothing.
\<close>

theorem mismatch_renders_unknown:
  shows "(el_recommendations s = Some old \<longrightarrow>
      (\<exists>rows. el_recommendations (displayResults rs s) = Some (Heading # map Rec rows)
         \<and> length rows = length rs
         \<and> (\<forall>i. length (selectedPoints s) \<le> i \<and> i < length rs \<longrightarrow>
               row_title (rows ! i) = ''Unknown'')))
    \<and> (analysisResults s = Some rs \<and> 0 \<le> idx \<and> nat idx < length rs
        \<and> length (selectedPoints s) \<le> nat idx
        \<and> el_rec_modal s = Some disp \<and> el_rec_body s = Some body \<longrightarrow>
      (\<exists>d. el_rec_body (showDetailedAnalysis idx s) = Some (Some d)
         \<and> d_structureType d = ''Unknown'' \<and> d_title d = ''Unknown Analysis''
         \<and> d_score d = r_score (rs ! nat idx)))
    \<and> (analysisResults s = None \<or>
        (analysisResults s = Some rs \<and> (idx < 0 \<or> length rs \<le> nat idx)) \<longrightarrow>
      showDetailedAnalysis idx s = s)"
proof (intro conjI impI)
  assume a: "el_recommendations s = Some old"
  let ?rows = "map (\<lambda>ir. renderRow (selectedPoints s) ir) (enumerate 0 rs)"
  have 1: "el_recommendations (displayResults rs s) = Some (Heading # map Rec ?rows)"
    using a by (simp add: displayResults_present comp_def)
  have 2: "length ?rows = length rs" by simp
  have 3: "\<forall>i. length (selectedPoints s) \<le> i \<and> i < length rs \<longrightarrow>
               row_title (?rows ! i) = ''Unknown''"
    by (simp add: renderRow_nth structureTypeAt_def toUpperCase_def)
  show "\<exists>rows. el_recommendations (displayResults rs s) = Some (Heading # map Rec rows)
         \<and> length rows = length rs
         \<and> (\<forall>i. length (selectedPoints s) \<le> i \<and> i < length rs \<longrightarrow>
               row_title (rows ! i) = ''Unknown'')"
    by (rule exI [of _ ?rows]) (intro conjI 1 2 3)
next
  assume "analysisResults s = Some rs \<and> 0 \<le> idx \<and> nat idx < length rs
        \<and> length (selectedPoints s) \<le> nat idx
        \<and> el_rec_modal s = Some disp \<and> el_rec_body s = Some body"
  then show "\<exists>d. el_rec_body (showDetailedAnalysis idx s) = Some (Some d)
         \<and> d_structureType d = ''Unknown'' \<and> d_title d = ''Unknown Analysis''
         \<and> d_score d = r_score (rs ! nat idx)"
    by (simp add: showDetailedAnalysis_def structureTypeAt_def toUpperCase_def Let_def)
next
  assume "analysisResults s = None \<or>
        (analysisResults s = Some rs \<and> (idx < 0 \<or> length rs \<le> nat idx))"
  then show "showDetailedAnalysis idx s = s"
    by (auto simp: showDetailedAnalysis_def)
qed

theorem mismatch_renders_unknown_witness:
  "(\<exists>rows. el_recommendations (displayResults exampleResults exampleLayers)
        = Some (Heading # map Rec rows)
      \<and> length rows = 2 \<and> row_title (rows ! 0) = ''Unknown'' \<and> row_title (rows ! 1) = ''Unknown'')
   \<and> (\<exists>d. el_rec_body (showDetailedAnalysis 1 (stateOf (clearAllMarkers exampleAnalyzed)))
        = Some (Some d)
      \<and> d_structureType d = ''Unknown'' \<and> d_score d = 45)
   \<and> showDetailedAnalysis 2 exampleAnalyzed = exampleAnalyzed
   \<and> showDetailedAnalysis (- 1) exampleAnalyzed = exampleAnalyzed
   \<and> showDetailedAnalysis 0 exampleLayers = exampleLayers"
proof -
  have len: "length exampleResults = 2" by (simp add: exampleResults_def)
  have sc: "r_score (exampleResults ! Suc 0) = 45" by (simp add: exampleResults_def)
  have c: "analysisResults (stateOf (clearAllMarkers exampleAnalyzed)) = Some exampleResults"
    "el_rec_modal (stateOf (clearAllMarkers exampleAnalyzed)) = Some ''none''"
    "el_rec_body (stateOf (clearAllMarkers exampleAnalyzed)) = Some None"
    "selectedPoints (stateOf (clearAllMarkers exampleAnalyzed)) = []"
    by (simp_all add: clearAllMarkers_def exampleAnalyzed_fields exampleAnalyzed_modal)
  from mismatch_renders_unknown [of exampleLayers "[]" exampleResults 0 "''none''" None]
  have 1: "\<exists>rows. el_recommendations (displayResults exampleResults exampleLayers)
        = Some (Heading # map Rec rows)
      \<and> length rows = 2 \<and> row_title (rows ! 0) = ''Unknown'' \<and> row_title (rows ! 1) = ''Unknown''"
    by (auto simp: exampleLayers_fields len)
  from mismatch_renders_unknown [of "stateOf (clearAllMarkers exampleAnalyzed)" "[]"
      exampleResults 1 "''none''" None]
  have 2: "\<exists>d. el_rec_body (showDetailedAnalysis 1 (stateOf (clearAllMarkers exampleAnalyzed)))
        = Some (Some d)
      \<and> d_structureType d = ''Unknown'' \<and> d_score d = 45"
    by (auto simp: c len sc)
  from mismatch_renders_unknown [of exampleAnalyzed "[]" exampleResults 2 "''none''" None]
  have 3: "showDetailedAnalysis 2 exampleAnalyzed = exampleAnalyzed"
    by (simp add: exampleAnalyzed_fields len)
  from mismatch_renders_unknown [of exampleAnalyzed "[]" exampleResults "- 1" "''none''" None]
  have 4: "showDetailedAnalysis (- 1) exampleAnalyzed = exampleAnalyzed"
    by (simp add: exampleAnalyzed_fields len)
  from mismatch_renders_unknown [of exampleLayers "[]" exampleResults 0 "''none''" None]
  have 5: "showDetailedAnalysis 0 exampleLayers = exampleLayers"
    by (simp add: exampleLayers_fields)
  show ?thesis by (intro conjI 1 2 3 4 5)
qed

end
